theory Spec2Isabelle
  imports Main "HOL-Library.AList"
begin

section \<open>Board model\<close>

text \<open>
  The client keeps the position in \<^verbatim>\<open>this.board[x][y]\<close>: an array of eight columns, each an
  array of eight cells holding \<^verbatim>\<open>null\<close> or a reference to a piece object
  \<^verbatim>\<open>{ color, type, moved }\<close>. Piece objects are mutated in place (\<^verbatim>\<open>piece.moved = true\<close>,
  \<^verbatim>\<open>piece.type = pieceType\<close>) and are shared between the board and
  \<^verbatim>\<open>pendingPromotion\<close>, so the model separates the cells (references) from the store of
  piece objects. Reading a cell outside \<open>0..7\<close> in the inner array yields \<^verbatim>\<open>undefined\<close>, which
  every test of the source treats like \<^verbatim>\<open>null\<close>; both are \<open>None\<close> here. The outer array
  has the columns \<open>0..7\<close> only: \<^verbatim>\<open>this.board[x]\<close> is \<^verbatim>\<open>undefined\<close> for any other \<open>x\<close> and
  indexing it throws, so no piece stands in such a column. The move generators and the
  check test are called with the columns of a scan over \<open>0..7\<close> or of a square that holds a
  piece; the board is a total function here and is \<open>None\<close> in the other columns.
\<close>

datatype color = White | Black

datatype pieceType = Pawn | Rook | Knight | Bishop | Queen | King

record piece =
  color :: color
  ptype :: pieceType
  moved :: bool

type_synonym square = "int \<times> int"
type_synonym ref = nat
type_synonym board = "square \<Rightarrow> ref option"
type_synonym heap = "ref \<Rightarrow> piece"
type_synonym dests = "square list \<times> square list"

definition pieceAt :: "heap \<Rightarrow> board \<Rightarrow> square \<Rightarrow> piece option" where
  "pieceAt h b sq = map_option h (b sq)"

definition other :: "color \<Rightarrow> color" where
  "other c = (if c = White then Black else White)"

definition allSquares :: "square list" where
  "allSquares = List.product [0, 1, 2, 3, 4, 5, 6, 7] [0, 1, 2, 3, 4, 5, 6, 7]"

section \<open>Rule engine: base geometry\<close>

text \<open>
  \<^verbatim>\<open>addMove(nx, ny)\<close>, the closure of \<^verbatim>\<open>getPieceMoves\<close> and \<^verbatim>\<open>calculateValidMoves\<close>:
  off the board it returns false; an empty target is pushed to the moves and the walk may
  go on; an enemy target is pushed to the attacks; in both occupied cases it returns false.
  The accumulator is the pair (moves, attacks).
\<close>

definition addMove :: "heap \<Rightarrow> board \<Rightarrow> piece \<Rightarrow> int \<Rightarrow> int \<Rightarrow> dests \<Rightarrow> bool \<times> dests" where
  "addMove h b p nx ny acc =
     (if nx < 0 \<or> nx > 7 \<or> ny < 0 \<or> ny > 7 then (False, acc)
      else case b (nx, ny) of
             None \<Rightarrow> (True, (fst acc @ [(nx, ny)], snd acc))
           | Some t \<Rightarrow>
               if color (h t) \<noteq> color p then (False, (fst acc, snd acc @ [(nx, ny)]))
               else (False, acc))"

text \<open>\<^verbatim>\<open>for (let i = 1; i < 8; i++) if (!addMove(x+dx*i, y+dy*i)) break;\<close>\<close>

function slide :: "heap \<Rightarrow> board \<Rightarrow> piece \<Rightarrow> int \<Rightarrow> int \<Rightarrow> int \<times> int \<Rightarrow> int \<Rightarrow> dests \<Rightarrow> dests" where
  "slide h b p x y d i acc =
     (if i < 8 then
        (let r = addMove h b p (x + fst d * i) (y + snd d * i) acc
         in if fst r then slide h b p x y d (i + 1) (snd r) else snd r)
      else acc)"
  by pat_completeness auto
termination
  by (relation "measure (\<lambda>(h, b, p, x, y, d, i, acc). nat (8 - i))") auto

declare slide.simps [simp del]

definition rookDirs :: "(int \<times> int) list" where
  "rookDirs = [(0, 1), (0, -1), (1, 0), (-1, 0)]"

definition bishopDirs :: "(int \<times> int) list" where
  "bishopDirs = [(1, 1), (1, -1), (-1, 1), (-1, -1)]"

definition queenDirs :: "(int \<times> int) list" where
  "queenDirs = [(0, 1), (0, -1), (1, 0), (-1, 0), (1, 1), (1, -1), (-1, 1), (-1, -1)]"

definition knightJumps :: "(int \<times> int) list" where
  "knightJumps = [(-2, -1), (-2, 1), (-1, -2), (-1, 2), (1, -2), (1, 2), (2, -1), (2, 1)]"

text \<open>\<^verbatim>\<open>dirs.forEach(([dx,dy]) => { for (...) ... })\<close> for the sliding pieces.\<close>

definition slideAll :: "heap \<Rightarrow> board \<Rightarrow> piece \<Rightarrow> int \<Rightarrow> int \<Rightarrow> (int \<times> int) list \<Rightarrow> dests \<Rightarrow> dests" where
  "slideAll h b p x y ds acc = foldl (\<lambda>a d. slide h b p x y d 1 a) acc ds"

text \<open>\<^verbatim>\<open>offsets.forEach(([dx,dy]) => addMove(x+dx, y+dy))\<close> for knight and king.\<close>

definition stepAll :: "heap \<Rightarrow> board \<Rightarrow> piece \<Rightarrow> int \<Rightarrow> int \<Rightarrow> (int \<times> int) list \<Rightarrow> dests \<Rightarrow> dests" where
  "stepAll h b p x y ds acc = foldl (\<lambda>a d. snd (addMove h b p (x + fst d) (y + snd d) a)) acc ds"

text \<open>
  The pawn's forward pushes, written the same way in both move generators: the cell in
  front is read without a bounds check, so a pawn standing on its last rank reads
  \<^verbatim>\<open>undefined\<close> there and the off-board square is pushed.
\<close>

definition pawnPushes :: "board \<Rightarrow> piece \<Rightarrow> int \<Rightarrow> int \<Rightarrow> square list" where
  "pawnPushes b p x y =
     (let dir = (if color p = White then -1 else 1)
      in if b (x, y + dir) = None then
           (x, y + dir) # (if \<not> moved p \<and> b (x, y + 2 * dir) = None then [(x, y + 2 * dir)] else [])
         else [])"

text \<open>The pawn's diagonal captures as \<^verbatim>\<open>getPieceMoves\<close> inlines them.\<close>

definition pawnAttack :: "heap \<Rightarrow> board \<Rightarrow> piece \<Rightarrow> int \<Rightarrow> int \<Rightarrow> square list \<Rightarrow> square list" where
  "pawnAttack h b p nx ny attacks =
     (if nx \<ge> 0 \<and> nx < 8 \<and> ny \<ge> 0 \<and> ny < 8 then
        (case b (nx, ny) of
           None \<Rightarrow> attacks
         | Some t \<Rightarrow> if color (h t) \<noteq> color p then attacks @ [(nx, ny)] else attacks)
      else attacks)"

text \<open>\<^verbatim>\<open>getPieceMoves(x, y)\<close>: base geometry only, returns \<^verbatim>\<open>[moves, attacks]\<close>.\<close>

definition getPieceMoves :: "heap \<Rightarrow> board \<Rightarrow> int \<Rightarrow> int \<Rightarrow> dests" where
  "getPieceMoves h b x y =
     (case b (x, y) of
        None \<Rightarrow> ([], [])
      | Some r \<Rightarrow>
          (let p = h r in
           case ptype p of
             Pawn \<Rightarrow>
               (let dir = (if color p = White then -1 else 1)
                in (pawnPushes b p x y,
                    foldl (\<lambda>a dx. pawnAttack h b p (x + dx) (y + dir) a) [] [-1, 1]))
           | Rook \<Rightarrow> slideAll h b p x y rookDirs ([], [])
           | Knight \<Rightarrow> stepAll h b p x y knightJumps ([], [])
           | Bishop \<Rightarrow> slideAll h b p x y bishopDirs ([], [])
           | Queen \<Rightarrow> slideAll h b p x y queenDirs ([], [])
           | King \<Rightarrow> stepAll h b p x y queenDirs ([], [])))"

section \<open>Check, legal moves, checkmate and stalemate\<close>

text \<open>
  \<^verbatim>\<open>isInCheck(color)\<close>: the first king of the colour in the scan order (x outer, y inner),
  then any piece of the other colour whose \<^verbatim>\<open>getPieceMoves\<close> attacks hold the king's square.
  The function only reads the board.
\<close>

definition isKingOf :: "heap \<Rightarrow> board \<Rightarrow> color \<Rightarrow> square \<Rightarrow> bool" where
  "isKingOf h b c sq =
     (case b sq of None \<Rightarrow> False | Some r \<Rightarrow> ptype (h r) = King \<and> color (h r) = c)"

definition findKing :: "heap \<Rightarrow> board \<Rightarrow> color \<Rightarrow> square option" where
  "findKing h b c = find (isKingOf h b c) allSquares"

definition attacksSquare :: "heap \<Rightarrow> board \<Rightarrow> color \<Rightarrow> square \<Rightarrow> square \<Rightarrow> bool" where
  "attacksSquare h b opp kingPos sq =
     (case b sq of
        None \<Rightarrow> False
      | Some r \<Rightarrow> color (h r) = opp \<and> kingPos \<in> set (snd (getPieceMoves h b (fst sq) (snd sq))))"

definition isInCheck :: "heap \<Rightarrow> board \<Rightarrow> color \<Rightarrow> bool" where
  "isInCheck h b c =
     (case findKing h b c of
        None \<Rightarrow> False
      | Some kingPos \<Rightarrow> list_ex (attacksSquare h b (other c) kingPos) allSquares)"

text \<open>
  \<^verbatim>\<open>hasValidMoves(color)\<close> tries every destination on the live board: it empties the source
  cell, writes the piece to the destination, asks \<^verbatim>\<open>isInCheck\<close>, and writes both cells back
  before it looks at the answer. The board is threaded through and returned.
\<close>

fun tryMoves :: "heap \<Rightarrow> board \<Rightarrow> color \<Rightarrow> square \<Rightarrow> ref \<Rightarrow> square list \<Rightarrow> bool \<times> board" where
  "tryMoves h b c src r [] = (False, b)"
| "tryMoves h b c src r (m # ms) =
     (let originalPiece = b m;
          b1 = b(src := None);
          b2 = b1(m := Some r);
          stillInCheck = isInCheck h b2 c;
          b3 = b2(src := Some r);
          b4 = b3(m := originalPiece)
      in if \<not> stillInCheck then (True, b4) else tryMoves h b4 c src r ms)"

fun scanPieces :: "heap \<Rightarrow> board \<Rightarrow> color \<Rightarrow> square list \<Rightarrow> bool \<times> board" where
  "scanPieces h b c [] = (False, b)"
| "scanPieces h b c (sq # sqs) =
     (case b sq of
        None \<Rightarrow> scanPieces h b c sqs
      | Some r \<Rightarrow>
          if color (h r) = c then
            (let ma = getPieceMoves h b (fst sq) (snd sq);
                 res = tryMoves h b c sq r (fst ma @ snd ma)
             in if fst res then (True, snd res) else scanPieces h (snd res) c sqs)
          else scanPieces h b c sqs)"

definition hasValidMoves :: "heap \<Rightarrow> board \<Rightarrow> color \<Rightarrow> bool \<times> board" where
  "hasValidMoves h b c = scanPieces h b c allSquares"

text \<open>
  \<^verbatim>\<open>isCheckmate\<close> is \<^verbatim>\<open>isInCheck(color) && !hasValidMoves(color)\<close> and \<^verbatim>\<open>isStalemate\<close> is
  \<^verbatim>\<open>!isInCheck(color) && !hasValidMoves(color)\<close>; \<^verbatim>\<open>&&\<close> does not evaluate its right operand
  when the left one is false.
\<close>

definition isCheckmate :: "heap \<Rightarrow> board \<Rightarrow> color \<Rightarrow> bool \<times> board" where
  "isCheckmate h b c =
     (if isInCheck h b c then (let res = hasValidMoves h b c in (\<not> fst res, snd res))
      else (False, b))"

definition isStalemate :: "heap \<Rightarrow> board \<Rightarrow> color \<Rightarrow> bool \<times> board" where
  "isStalemate h b c =
     (if \<not> isInCheck h b c then (let res = hasValidMoves h b c in (\<not> fst res, snd res))
      else (False, b))"

section \<open>Ability card registry\<close>

text \<open>
  \<^verbatim>\<open>this.customMoves[color][pieceType]\<close> is \<^verbatim>\<open>{ moves: [...], attacks: [...] }\<close> or absent;
  \<^verbatim>\<open>this.abilityCards[color]\<close> maps card names to cards and is enumerated by
  \<^verbatim>\<open>Object.entries\<close>, so it is an association list in enumeration order. A card's
  \<^verbatim>\<open>enabled\<close> is \<^verbatim>\<open>undefined\<close> (\<open>None\<close>), true or false; a missing offset array behaves
  as the empty one (\<^verbatim>\<open>data.moves || []\<close>, \<^verbatim>\<open>card.moves?.forEach\<close>).
\<close>

type_synonym offset = "int \<times> int"

record custom =
  moves :: "offset list"
  attacks :: "offset list"

record card = custom +
  pieceType :: pieceType
  enabled :: "bool option"

type_synonym customTable = "color \<Rightarrow> pieceType \<Rightarrow> custom option"
type_synonym cardTable = "color \<Rightarrow> (string \<times> card) list"

definition emptyCustom :: custom where
  "emptyCustom = \<lparr>moves = [], attacks = []\<rparr>"

definition emptyTable :: customTable where
  "emptyTable = (\<lambda>c pt. None)"

text \<open>\<^verbatim>\<open>if (!xs.some(m => m[0] === o[0] && m[1] === o[1])) xs.push(o)\<close>\<close>

definition pushUnique :: "offset list \<Rightarrow> offset \<Rightarrow> offset list" where
  "pushUnique xs off = (if off \<in> set xs then xs else xs @ [off])"

text \<open>The body of the inner \<^verbatim>\<open>forEach\<close> of \<^verbatim>\<open>rebuildCustomMoves\<close> for one card.\<close>

definition rebuildCard :: "(pieceType \<Rightarrow> custom option) \<Rightarrow> card \<Rightarrow> (pieceType \<Rightarrow> custom option)" where
  "rebuildCard t d =
     (if enabled d = Some False then t
      else
        (let pt = pieceType d;
             cur = (case t pt of None \<Rightarrow> emptyCustom | Some c \<Rightarrow> c);
             ms = foldl pushUnique (moves cur) (moves d);
             as = foldl pushUnique (attacks cur) (attacks d)
         in t(pt \<mapsto> \<lparr>moves = ms, attacks = as\<rparr>)))"

definition rebuildTable :: "cardTable \<Rightarrow> customTable" where
  "rebuildTable cards = (\<lambda>c. foldl rebuildCard (\<lambda>pt. None) (map snd (cards c)))"

text \<open>Removing every offset equal to one of the card's, one \<^verbatim>\<open>filter\<close> per card offset.\<close>

definition subtractOffsets :: "offset list \<Rightarrow> offset list \<Rightarrow> offset list" where
  "subtractOffsets xs del = foldl (\<lambda>acc off. filter (\<lambda>m. \<not> (m = off)) acc) xs del"

section \<open>Game state\<close>

datatype error = TypeError

datatype 'a result = Returned 'a | Threw error 'a

text \<open>The state a call leaves behind, whether it returned or threw.\<close>

definition state :: "'a result \<Rightarrow> 'a" where
  "state r = (case r of Returned s \<Rightarrow> s | Threw e s \<Rightarrow> s)"

definition isThrown :: "'a result \<Rightarrow> bool" where
  "isThrown r = (case r of Returned s \<Rightarrow> False | Threw e s \<Rightarrow> True)"

datatype reason = KingEaten | Mate | StalemateDraw

datatype message = ToggleCardMsg color string bool | DeleteCardMsg color string

datatype effect =
    RecordWin color
  | RecordDraw
  | GameOver "color option" reason
  | StatusCheck
  | StatusLocal
  | PromotionModalShown
  | PromotionModalHidden
  | Sent message
  | SavedCustomMoves

record promotion =
  px :: int
  py :: int
  ppiece :: ref
  pfrom :: square
  pcaptured :: "ref option"

record histEntry =
  number :: nat
  white :: string
  black :: string

text \<open>
  The fields of \<^verbatim>\<open>ChessGame\<close> that the modelled methods read or write. \<open>online\<close> is the
  test \<^verbatim>\<open>!this.isLocalGame && this.ws && this.ws.readyState === WebSocket.OPEN\<close>;
  \<open>effects\<close> records, in order, the calls that leave the object (statistics, game-over and
  status display, the promotion dialog, messages sent, local storage).
\<close>

record game =
  board :: board
  heap :: heap
  selectedPiece :: "square option"
  validMoves :: "square list"
  validAttacks :: "square list"
  currentPlayer :: color
  lastMove :: "(square \<times> square) option"
  moveHistory :: "histEntry list"
  pendingPromotion :: "promotion option"
  customMoves :: customTable
  abilityCards :: cardTable
  online :: bool
  effects :: "effect list"

definition boardView :: "game \<Rightarrow> square \<Rightarrow> piece option" where
  "boardView g = pieceAt (heap g) (board g)"

subsection \<open>Registry operations\<close>

definition toggleEnabled :: "bool option \<Rightarrow> bool option" where
  "toggleEnabled e = (if e = Some True \<or> e = None then Some False else Some True)"

definition rebuildCustomMoves :: "game \<Rightarrow> game" where
  "rebuildCustomMoves g = g\<lparr>customMoves := rebuildTable (abilityCards g)\<rparr>"

definition toggleCard :: "game \<Rightarrow> color \<Rightarrow> string \<Rightarrow> game" where
  "toggleCard g c name =
     (case map_of (abilityCards g c) name of
        None \<Rightarrow> g
      | Some cd \<Rightarrow>
          (let e = toggleEnabled (enabled cd);
               cards = (abilityCards g)(c := AList.update name (cd\<lparr>enabled := e\<rparr>) (abilityCards g c));
               g1 = g\<lparr>abilityCards := cards\<rparr>
           in if online g1 then
                g1\<lparr>effects := effects g1 @ [Sent (ToggleCardMsg c name (e = Some True))]\<rparr>
              else
                (let g2 = rebuildCustomMoves g1
                 in g2\<lparr>effects := effects g2 @ [SavedCustomMoves]\<rparr>)))"

definition deleteCard :: "game \<Rightarrow> color \<Rightarrow> string \<Rightarrow> game" where
  "deleteCard g c name =
     (let g1 =
        (case map_of (abilityCards g c) name of
           None \<Rightarrow> g
         | Some cd \<Rightarrow>
             (case customMoves g c (pieceType cd) of
                None \<Rightarrow> g
              | Some cu \<Rightarrow>
                  g\<lparr>customMoves := (customMoves g)
                       (c := (customMoves g c)
                          (pieceType cd \<mapsto>
                             \<lparr>moves = subtractOffsets (moves cu) (moves cd),
                              attacks = subtractOffsets (attacks cu) (attacks cd)\<rparr>))\<rparr>))
      in if online g1 then g1\<lparr>effects := effects g1 @ [Sent (DeleteCardMsg c name)]\<rparr>
         else g1\<lparr>abilityCards := (abilityCards g1)(c := AList.delete name (abilityCards g1 c)),
                 effects := effects g1 @ [SavedCustomMoves]\<rparr>)"

subsection \<open>Move generation with ability cards\<close>

text \<open>\<^verbatim>\<open>addAttack(nx, ny)\<close>, the second closure of \<^verbatim>\<open>calculateValidMoves\<close>.\<close>

definition addAttack :: "heap \<Rightarrow> board \<Rightarrow> piece \<Rightarrow> int \<Rightarrow> int \<Rightarrow> square list \<Rightarrow> square list" where
  "addAttack h b p nx ny as =
     (if nx < 0 \<or> nx > 7 \<or> ny < 0 \<or> ny > 7 then as
      else case b (nx, ny) of
             None \<Rightarrow> as
           | Some t \<Rightarrow> if color (h t) \<noteq> color p then as @ [(nx, ny)] else as)"

text \<open>The \<^verbatim>\<open>switch (piece.type)\<close> of \<^verbatim>\<open>calculateValidMoves\<close>.\<close>

definition baseDests :: "heap \<Rightarrow> board \<Rightarrow> piece \<Rightarrow> int \<Rightarrow> int \<Rightarrow> dests" where
  "baseDests h b p x y =
     (case ptype p of
        Pawn \<Rightarrow>
          (let dir = (if color p = White then -1 else 1)
           in (pawnPushes b p x y,
               foldl (\<lambda>a dx. addAttack h b p (x + dx) (y + dir) a) [] [-1, 1]))
      | Rook \<Rightarrow> slideAll h b p x y rookDirs ([], [])
      | Knight \<Rightarrow> stepAll h b p x y knightJumps ([], [])
      | Bishop \<Rightarrow> slideAll h b p x y bishopDirs ([], [])
      | Queen \<Rightarrow> slideAll h b p x y queenDirs ([], [])
      | King \<Rightarrow> stepAll h b p x y queenDirs ([], []))"

text \<open>A card move offset is realised only onto an empty square of the board.\<close>

definition customMove :: "board \<Rightarrow> int \<Rightarrow> int \<Rightarrow> square list \<Rightarrow> offset \<Rightarrow> square list" where
  "customMove b x y ms d =
     (let nx = x + fst d; ny = y + snd d
      in if nx \<ge> 0 \<and> nx < 8 \<and> ny \<ge> 0 \<and> ny < 8 \<and> b (nx, ny) = None then
           (if (nx, ny) \<notin> set ms then ms @ [(nx, ny)] else ms)
         else ms)"

text \<open>A card attack offset is realised only onto a square held by the other colour.\<close>

definition customAttack :: "heap \<Rightarrow> board \<Rightarrow> piece \<Rightarrow> int \<Rightarrow> int \<Rightarrow> square list \<Rightarrow> offset \<Rightarrow> square list" where
  "customAttack h b p x y as d =
     (let nx = x + fst d; ny = y + snd d
      in if nx \<ge> 0 \<and> nx < 8 \<and> ny \<ge> 0 \<and> ny < 8 then
           (case b (nx, ny) of
              None \<Rightarrow> as
            | Some t \<Rightarrow>
                if color (h t) \<noteq> color p \<and> (nx, ny) \<notin> set as then as @ [(nx, ny)] else as)
         else as)"

definition cardDests :: "heap \<Rightarrow> board \<Rightarrow> customTable \<Rightarrow> piece \<Rightarrow> int \<Rightarrow> int \<Rightarrow> dests \<Rightarrow> dests" where
  "cardDests h b cm p x y acc =
     (case cm (color p) (ptype p) of
        None \<Rightarrow> acc
      | Some cu \<Rightarrow>
          (foldl (customMove b x y) (fst acc) (moves cu),
           foldl (customAttack h b p x y) (snd acc) (attacks cu)))"

text \<open>
  \<^verbatim>\<open>calculateValidMoves(x, y)\<close> (the same text in the v2.5 and v2.7 clients): without a piece on
  the square it returns and leaves both lists as they were.
\<close>

definition calculateValidMoves :: "game \<Rightarrow> int \<Rightarrow> int \<Rightarrow> game" where
  "calculateValidMoves g x y =
     (case board g (x, y) of
        None \<Rightarrow> g
      | Some r \<Rightarrow>
          (let p = heap g r;
               ds = cardDests (heap g) (board g) (customMoves g) p x y (baseDests (heap g) (board g) p x y)
           in g\<lparr>validMoves := fst ds, validAttacks := snd ds\<rparr>))"

subsection \<open>The legality filter\<close>

text \<open>
  One loop of \<^verbatim>\<open>filterMovesInCheck\<close>: each candidate is played on the live board, tested,
  and both cells are written back. The first statement of the loop body reads
  \<^verbatim>\<open>this.board[mx][my]\<close>, which throws for a column outside \<open>0..7\<close> before anything is
  written; the lists kept so far are local and lost with the throw.
\<close>

fun filterSim :: "heap \<Rightarrow> board \<Rightarrow> color \<Rightarrow> square \<Rightarrow> ref \<Rightarrow> square list \<Rightarrow> (square list \<times> board) result" where
  "filterSim h b c src r [] = Returned ([], b)"
| "filterSim h b c src r (m # ms) =
     (if fst m < 0 \<or> fst m > 7 then Threw TypeError ([], b)
      else
        (let originalPiece = b m;
             b1 = b(src := None);
             b2 = b1(m := Some r);
             keep = \<not> isInCheck h b2 c;
             b3 = b2(src := Some r);
             b4 = b3(m := originalPiece)
         in case filterSim h b4 c src r ms of
              Returned rest \<Rightarrow> Returned ((if keep then [m] else []) @ fst rest, snd rest)
            | Threw e rest \<Rightarrow> Threw e ([], snd rest)))"

text \<open>
  \<^verbatim>\<open>filterMovesInCheck()\<close>. Reading the selected piece throws when nothing is selected or the
  selected column is outside \<open>0..7\<close>; the two lists are assigned only after both loops.
\<close>

definition filterMovesInCheck :: "game \<Rightarrow> game result" where
  "filterMovesInCheck g =
     (case selectedPiece g of
        None \<Rightarrow> Threw TypeError g
      | Some src \<Rightarrow>
          if fst src < 0 \<or> fst src > 7 then Threw TypeError g
          else
            (case board g src of
               None \<Rightarrow> Returned g
             | Some r \<Rightarrow>
                 (let c = color (heap g r)
                  in case filterSim (heap g) (board g) c src r (validMoves g) of
                       Threw e fm \<Rightarrow> Threw e (g\<lparr>board := snd fm\<rparr>)
                     | Returned fm \<Rightarrow>
                         (case filterSim (heap g) (snd fm) c src r (validAttacks g) of
                            Threw e fa \<Rightarrow> Threw e (g\<lparr>board := snd fa\<rparr>)
                          | Returned fa \<Rightarrow>
                              Returned (g\<lparr>board := snd fa, validMoves := fst fm,
                                          validAttacks := fst fa\<rparr>)))))"

subsection \<open>Move history\<close>

fun showNat :: "nat \<Rightarrow> string" where
  "showNat n =
     (if n < 10 then [''0123456789'' ! n] else showNat (n div 10) @ [''0123456789'' ! (n mod 10)])"

declare showNat.simps [simp del]

definition showInt :: "int \<Rightarrow> string" where
  "showInt i = (if i < 0 then CHR ''-'' # showNat (nat (- i)) else showNat (nat i))"

text \<open>
  \<^verbatim>\<open>files[i]\<close> with \<^verbatim>\<open>files = 'abcdefgh'\<close>: a one-character string, or \<^verbatim>\<open>undefined\<close>
  (\<open>None\<close>) outside the string.
\<close>

definition fileStr :: "int \<Rightarrow> char option" where
  "fileStr i = (if 0 \<le> i \<and> i < 8 then Some (''abcdefgh'' ! nat i) else None)"

text \<open>
  \<^verbatim>\<open>files[sq[0]] + (8 - sq[1])\<close>: string concatenation when the file exists; otherwise
  \<^verbatim>\<open>undefined + number\<close> is the number \<^verbatim>\<open>NaN\<close>, printed as such in the notation.
\<close>

definition squareNotation :: "square \<Rightarrow> string" where
  "squareNotation sq =
     (case fileStr (fst sq) of
        None \<Rightarrow> ''NaN''
      | Some f \<Rightarrow> f # showInt (8 - snd sq))"

definition pieceSymbol :: "pieceType \<Rightarrow> string" where
  "pieceSymbol t =
     (case t of King \<Rightarrow> ''K'' | Queen \<Rightarrow> ''Q'' | Rook \<Rightarrow> ''R'' | Bishop \<Rightarrow> ''B''
      | Knight \<Rightarrow> ''N'' | Pawn \<Rightarrow> [])"

definition moveNotation :: "pieceType \<Rightarrow> square \<Rightarrow> bool \<Rightarrow> square \<Rightarrow> string" where
  "moveNotation t from captured to =
     pieceSymbol t @ squareNotation from @ (if captured then ''x'' else ''-'') @ squareNotation to"

definition addMoveToHistory :: "game \<Rightarrow> square \<Rightarrow> square \<Rightarrow> ref \<Rightarrow> ref option \<Rightarrow> game" where
  "addMoveToHistory g from to r captured =
     (let notation = moveNotation (ptype (heap g r)) from (captured \<noteq> None) to
      in if color (heap g r) = White then
           g\<lparr>moveHistory := moveHistory g @
               [\<lparr>number = length (moveHistory g) + 1, white = notation, black = []\<rparr>]\<rparr>
         else if length (moveHistory g) > 0 then
           g\<lparr>moveHistory := butlast (moveHistory g) @ [(last (moveHistory g))\<lparr>black := notation\<rparr>]\<rparr>
         else g)"

subsection \<open>Local play, v2.7 client\<close>

text \<open>
  The check, mate and stalemate report that follows a committed move, written once in
  \<^verbatim>\<open>handleLocalClick\<close> and once in \<^verbatim>\<open>selectPromotion\<close>.
\<close>

definition reportStatus :: "game \<Rightarrow> color \<Rightarrow> color \<Rightarrow> game" where
  "reportStatus g opponentColor mover =
     (let r1 = isCheckmate (heap g) (board g) opponentColor;
          g1 = g\<lparr>board := snd r1\<rparr>
      in if fst r1 then g1\<lparr>effects := effects g1 @ [RecordWin mover, GameOver (Some mover) Mate]\<rparr>
         else
           (let r2 = isStalemate (heap g1) (board g1) opponentColor;
                g2 = g1\<lparr>board := snd r2\<rparr>
            in if fst r2 then g2\<lparr>effects := effects g2 @ [RecordDraw, GameOver None StalemateDraw]\<rparr>
               else if isInCheck (heap g2) (board g2) opponentColor
                 then g2\<lparr>effects := effects g2 @ [StatusCheck]\<rparr>
                 else g2\<lparr>effects := effects g2 @ [StatusLocal]\<rparr>))"

text \<open>The branch of \<^verbatim>\<open>handleLocalClick\<close> taken when the click is a valid move or attack.\<close>

definition commitMove :: "game \<Rightarrow> square \<Rightarrow> int \<Rightarrow> int \<Rightarrow> game result" where
  "commitMove g src x y =
     (let piece = board g src;
          captured = board g (x, y)
      in if (case captured of None \<Rightarrow> False | Some cr \<Rightarrow> ptype (heap g cr) = King) then
           (case piece of
              None \<Rightarrow> Threw TypeError g
            | Some r \<Rightarrow>
                Returned (g\<lparr>effects := effects g @
                   [RecordWin (color (heap g r)), GameOver (Some (color (heap g r))) KingEaten]\<rparr>))
         else
           (let g1 = g\<lparr>board := (board g)(src := None, (x, y) := piece)\<rparr>
            in case piece of
                 None \<Rightarrow> Threw TypeError g1
               | Some r \<Rightarrow>
                   (let g2 = g1\<lparr>heap := (heap g1)(r := (heap g1 r)\<lparr>moved := True\<rparr>),
                                 lastMove := Some (src, (x, y))\<rparr>
                    in if ptype (heap g2 r) = Pawn \<and> (y = 0 \<or> y = 7) then
                         Returned (g2\<lparr>pendingPromotion :=
                                        Some \<lparr>px = x, py = y, ppiece = r, pfrom = src, pcaptured = captured\<rparr>,
                                      effects := effects g2 @ [PromotionModalShown]\<rparr>)
                       else
                         (let g3 = addMoveToHistory g2 src (x, y) r captured;
                              g4 = g3\<lparr>selectedPiece := None, validMoves := [], validAttacks := [],
                                       currentPlayer := other (currentPlayer g3)\<rparr>
                          in Returned (reportStatus g4 (currentPlayer g4) (color (heap g4 r)))))))"

definition deselectPiece :: "game \<Rightarrow> game" where
  "deselectPiece g = g\<lparr>selectedPiece := None, validMoves := [], validAttacks := []\<rparr>"

text \<open>
  \<^verbatim>\<open>handleLocalClick(x, y)\<close>. \<^verbatim>\<open>this.board[x]\<close> is \<^verbatim>\<open>undefined\<close> for a column outside \<open>0..7\<close>
  and indexing it throws; the callers only pass display coordinates in \<open>0..7\<close>.
\<close>

definition handleLocalClick :: "game \<Rightarrow> int \<Rightarrow> int \<Rightarrow> game result" where
  "handleLocalClick g x y =
     (if x < 0 \<or> x > 7 then Threw TypeError g
      else
        (let clickedPiece = board g (x, y)
         in case (case selectedPiece g of
                    None \<Rightarrow> None
                  | Some src \<Rightarrow>
                      if (x, y) \<in> set (validMoves g) \<or> (x, y) \<in> set (validAttacks g)
                      then Some src else None) of
              Some src \<Rightarrow> commitMove g src x y
            | None \<Rightarrow>
                if (case clickedPiece of None \<Rightarrow> False
                    | Some r \<Rightarrow> color (heap g r) = currentPlayer g) then
                  filterMovesInCheck (calculateValidMoves (g\<lparr>selectedPiece := Some (x, y)\<rparr>) x y)
                else Returned (deselectPiece g)))"

definition selectPromotion :: "game \<Rightarrow> pieceType \<Rightarrow> game" where
  "selectPromotion g t =
     (case pendingPromotion g of
        None \<Rightarrow> g
      | Some pp \<Rightarrow>
          (let r = ppiece pp;
               g1 = g\<lparr>heap := (heap g)(r := (heap g r)\<lparr>ptype := t\<rparr>)\<rparr>;
               g2 = addMoveToHistory g1 (pfrom pp) (px pp, py pp) r (pcaptured pp);
               g3 = g2\<lparr>pendingPromotion := None, effects := effects g2 @ [PromotionModalHidden]\<rparr>;
               opponentColor = currentPlayer g3;
               g4 = g3\<lparr>currentPlayer := other (currentPlayer g3)\<rparr>;
               g5 = reportStatus g4 opponentColor (color (heap g4 r))
           in g5\<lparr>selectedPiece := None, validMoves := [], validAttacks := []\<rparr>))"

subsection \<open>Local play, v2.5 client\<close>

text \<open>
  \<^verbatim>\<open>handleLocalClick\<close> of \<^verbatim>\<open>frontend-v2.5/game.js\<close>: no king test, no promotion dialog
  (a pawn on rank 0 or 7 becomes a queen at once), no legality filter after
  \<^verbatim>\<open>calculateValidMoves\<close>, no status report.
\<close>

definition commitMove25 :: "game \<Rightarrow> square \<Rightarrow> int \<Rightarrow> int \<Rightarrow> game result" where
  "commitMove25 g src x y =
     (let piece = board g src;
          captured = board g (x, y);
          g1 = g\<lparr>board := (board g)(src := None, (x, y) := piece)\<rparr>
      in case piece of
           None \<Rightarrow> Threw TypeError g1
         | Some r \<Rightarrow>
             (let g2 = g1\<lparr>heap := (heap g1)(r := (heap g1 r)\<lparr>moved := True\<rparr>)\<rparr>;
                  g3 = (if ptype (heap g2 r) = Pawn \<and> (y = 0 \<or> y = 7)
                        then g2\<lparr>heap := (heap g2)(r := (heap g2 r)\<lparr>ptype := Queen\<rparr>)\<rparr> else g2);
                  g4 = addMoveToHistory (g3\<lparr>lastMove := Some (src, (x, y))\<rparr>) src (x, y) r captured
              in Returned (g4\<lparr>selectedPiece := None, validMoves := [], validAttacks := [],
                              currentPlayer := other (currentPlayer g4)\<rparr>)))"

definition handleLocalClick25 :: "game \<Rightarrow> int \<Rightarrow> int \<Rightarrow> game result" where
  "handleLocalClick25 g x y =
     (if x < 0 \<or> x > 7 then Threw TypeError g
      else
        (let clickedPiece = board g (x, y)
         in case (case selectedPiece g of
                    None \<Rightarrow> None
                  | Some src \<Rightarrow>
                      if (x, y) \<in> set (validMoves g) \<or> (x, y) \<in> set (validAttacks g)
                      then Some src else None) of
              Some src \<Rightarrow> commitMove25 g src x y
            | None \<Rightarrow>
                if (case clickedPiece of None \<Rightarrow> False
                    | Some r \<Rightarrow> color (heap g r) = currentPlayer g) then
                  Returned (calculateValidMoves (g\<lparr>selectedPiece := Some (x, y)\<rparr>) x y)
                else Returned (deselectPiece g)))"

subsection \<open>Starting a local game\<close>

text \<open>
  \<^verbatim>\<open>getInitialBoard()\<close> allocates, for each column \<open>x\<close>, the black back-rank piece, the black
  pawn, the white pawn and the white back-rank piece, in this order; the object made as
  number \<open>k\<close> of column \<open>x\<close> has the reference \<open>4 * x + k\<close>.
\<close>

definition backRank :: "pieceType list" where
  "backRank = [Rook, Knight, Bishop, Queen, King, Bishop, Knight, Rook]"

definition initialBoard :: board where
  "initialBoard =
     (\<lambda>(x, y). if 0 \<le> x \<and> x < 8 then
                  (if y = 0 then Some (nat (4 * x))
                   else if y = 1 then Some (nat (4 * x + 1))
                   else if y = 6 then Some (nat (4 * x + 2))
                   else if y = 7 then Some (nat (4 * x + 3))
                   else None)
                else None)"

definition initialHeap :: heap where
  "initialHeap =
     (\<lambda>r. \<lparr>color = (if r mod 4 < 2 then Black else White),
            ptype = (if r mod 4 = 0 \<or> r mod 4 = 3 then backRank ! (r div 4) else Pawn),
            moved = False\<rparr>)"

text \<open>
  The state after \<^verbatim>\<open>startLocalGame()\<close> on a freshly constructed client whose card tables
  are \<open>cm\<close> and \<open>cards\<close>.
\<close>

definition startLocalGame :: "customTable \<Rightarrow> cardTable \<Rightarrow> game" where
  "startLocalGame cm cards =
     \<lparr>board = initialBoard, heap = initialHeap, selectedPiece = None, validMoves = [],
      validAttacks = [], currentPlayer = White, lastMove = None, moveHistory = [],
      pendingPromotion = None, customMoves = cm, abilityCards = cards, online = False,
      effects = []\<rparr>"

text \<open>
  A sequence of board clicks; a click that throws ends the handler, not the page, and the
  next click finds the state as the throw left it.
\<close>

definition clicks :: "game \<Rightarrow> (int \<times> int) list \<Rightarrow> game" where
  "clicks g cs = foldl (\<lambda>s c. state (handleLocalClick s (fst c) (snd c))) g cs"

definition clicks25 :: "game \<Rightarrow> (int \<times> int) list \<Rightarrow> game" where
  "clicks25 g cs = foldl (\<lambda>s c. state (handleLocalClick25 s (fst c) (snd c))) g cs"

section \<open>Legal moves, stated directly\<close>

text \<open>
  The board on which \<^verbatim>\<open>isInCheck\<close> is asked while a move from \<open>src\<close> to \<open>m\<close> is tried, and
  the test that a piece of colour \<open>c\<close> on \<open>sq\<close> has a base-geometry destination after which
  \<open>c\<close> is not in check.
\<close>

definition played :: "board \<Rightarrow> square \<Rightarrow> square \<Rightarrow> ref \<Rightarrow> board" where
  "played b src m r = b(src := None, m := Some r)"

definition survives :: "heap \<Rightarrow> board \<Rightarrow> color \<Rightarrow> square \<Rightarrow> bool" where
  "survives h b c sq =
     (case b sq of
        None \<Rightarrow> False
      | Some r \<Rightarrow>
          color (h r) = c \<and>
          list_ex (\<lambda>m. \<not> isInCheck h (played b sq m r) c)
            (fst (getPieceMoves h b (fst sq) (snd sq)) @ snd (getPieceMoves h b (fst sq) (snd sq))))"

section \<open>Example positions\<close>

text \<open>
  Black king a8 (object 0), white queen b7 (object 1), white king c6 (object 2): Black is
  mated.
\<close>

definition mateHeap :: heap where
  "mateHeap =
     (\<lambda>r. if r = 0 then \<lparr>color = Black, ptype = King, moved = True\<rparr>
          else if r = 1 then \<lparr>color = White, ptype = Queen, moved = True\<rparr>
          else \<lparr>color = White, ptype = King, moved = True\<rparr>)"

definition mateBoard :: board where
  "mateBoard = (\<lambda>sq. None)((0, 0) := Some 0, (1, 1) := Some 1, (2, 2) := Some 2)"

text \<open>
  White king e1 (object 0), black rook d2 (object 1), black king a8 (object 2); Black owns
  one enabled card that gives the rook the attack offset \<open>(1, 1)\<close>, and the table is the
  one \<^verbatim>\<open>rebuildCustomMoves\<close> derives from it. Black is to move.
\<close>

definition cardHeap :: heap where
  "cardHeap =
     (\<lambda>r. if r = 0 then \<lparr>color = White, ptype = King, moved = True\<rparr>
          else if r = 1 then \<lparr>color = Black, ptype = Rook, moved = True\<rparr>
          else \<lparr>color = Black, ptype = King, moved = True\<rparr>)"

definition cardBoard :: board where
  "cardBoard = (\<lambda>sq. None)((4, 7) := Some 0, (3, 6) := Some 1, (0, 0) := Some 2)"

definition diagCards :: cardTable where
  "diagCards =
     (\<lambda>c. if c = Black then
             [(''diag'', \<lparr>moves = [], attacks = [(1, 1)], pieceType = Rook, enabled = None\<rparr>)]
           else [])"

definition cardGame :: game where
  "cardGame = (startLocalGame (rebuildTable diagCards) diagCards)
     \<lparr>board := cardBoard, heap := cardHeap, currentPlayer := Black\<rparr>"

text \<open>
  Two enabled cards of White for the rook, \<open>A\<close> and \<open>B\<close>, which both contribute the move
  offset \<open>(1, 1)\<close>; \<open>B\<close> also contributes \<open>(2, 2)\<close>. The table is the derived one.
\<close>

definition twoCards :: cardTable where
  "twoCards =
     (\<lambda>c. if c = White then
             [(''A'', \<lparr>moves = [(1, 1)], attacks = [], pieceType = Rook, enabled = None\<rparr>),
              (''B'', \<lparr>moves = [(1, 1), (2, 2)], attacks = [], pieceType = Rook, enabled = Some True\<rparr>)]
           else [])"

definition twoCardsGame :: game where
  "twoCardsGame = startLocalGame (rebuildTable twoCards) twoCards"

text \<open>The same game after Black has selected the rook on d2.\<close>

definition cardGameSelected :: game where
  "cardGameSelected = cardGame
     \<lparr>selectedPiece := Some (3, 6),
      validMoves := [(3, 7), (3, 5), (3, 4), (3, 3), (3, 2), (3, 1), (3, 0), (4, 6), (5, 6),
                     (6, 6), (7, 6), (2, 6), (1, 6), (0, 6)],
      validAttacks := [(4, 7)]\<rparr>"

section \<open>Rays, stated directly\<close>

text \<open>
  The squares of the ray from \<open>(x, y)\<close> in direction \<open>d\<close>, and what the boundary rule asks of a
  ray: the moves are the squares of the longest run of empty board squares from the first
  step on, in walking order; the attack is the square right after that run, if it is within
  seven steps, on the board, and held by a piece of the other colour.
\<close>

definition raySquare :: "int \<Rightarrow> int \<Rightarrow> int \<times> int \<Rightarrow> int \<Rightarrow> square" where
  "raySquare x y d i = (x + fst d * i, y + snd d * i)"

definition onBoard :: "square \<Rightarrow> bool" where
  "onBoard sq = (0 \<le> fst sq \<and> fst sq \<le> 7 \<and> 0 \<le> snd sq \<and> snd sq \<le> 7)"

definition emptySq :: "board \<Rightarrow> square \<Rightarrow> bool" where
  "emptySq b sq = (onBoard sq \<and> b sq = None)"

definition enemySq :: "heap \<Rightarrow> board \<Rightarrow> piece \<Rightarrow> square \<Rightarrow> bool" where
  "enemySq h b p sq =
     (onBoard sq \<and> (case b sq of None \<Rightarrow> False | Some t \<Rightarrow> color (h t) \<noteq> color p))"

definition rayMoves :: "board \<Rightarrow> int \<Rightarrow> int \<Rightarrow> int \<times> int \<Rightarrow> square list" where
  "rayMoves b x y d = map (raySquare x y d) (takeWhile (\<lambda>i. emptySq b (raySquare x y d i)) [1..7])"

definition rayAttacks :: "heap \<Rightarrow> board \<Rightarrow> piece \<Rightarrow> int \<Rightarrow> int \<Rightarrow> int \<times> int \<Rightarrow> square list" where
  "rayAttacks h b p x y d =
     (let k = 1 + int (length (rayMoves b x y d))
      in if k \<le> 7 \<and> enemySq h b p (raySquare x y d k) then [raySquare x y d k] else [])"

definition raysOf :: "pieceType \<Rightarrow> (int \<times> int) list" where
  "raysOf t = (case t of Rook \<Rightarrow> rookDirs | Bishop \<Rightarrow> bishopDirs | Queen \<Rightarrow> queenDirs | _ \<Rightarrow> [])"

text \<open>
  White rook d5 (object 0), white pawn d7 (object 1), black pawn g5 (object 2).
\<close>

definition rayHeap :: heap where
  "rayHeap =
     (\<lambda>r. if r = 0 then \<lparr>color = White, ptype = Rook, moved = True\<rparr>
          else if r = 1 then \<lparr>color = White, ptype = Pawn, moved = False\<rparr>
          else \<lparr>color = Black, ptype = Pawn, moved = True\<rparr>)"

definition rayBoard :: board where
  "rayBoard = (\<lambda>sq. None)((3, 3) := Some 0, (3, 1) := Some 1, (6, 3) := Some 2)"

text \<open>
  The clicks of 1. e4 d5 2. Bb5+ a6 from the start of a local game: the last move is made
  by Black while the bishop on b5 attacks the black king.
\<close>

definition selfCheckClicks :: "(int \<times> int) list" where
  "selfCheckClicks = [(4, 6), (4, 4), (3, 1), (3, 3), (5, 7), (1, 3), (0, 1), (0, 2)]"

text \<open>
  White pawn a7 (object 0), white king e1 (object 1), black king h8 (object 2), White to
  move; and the same game after White has selected the pawn.
\<close>

definition promoHeap :: heap where
  "promoHeap =
     (\<lambda>r. if r = 0 then \<lparr>color = White, ptype = Pawn, moved = True\<rparr>
          else if r = 1 then \<lparr>color = White, ptype = King, moved = True\<rparr>
          else \<lparr>color = Black, ptype = King, moved = True\<rparr>)"

definition promoBoard :: board where
  "promoBoard = (\<lambda>sq. None)((0, 1) := Some 0, (4, 7) := Some 1, (7, 0) := Some 2)"

definition promoGame :: game where
  "promoGame = (startLocalGame emptyTable (\<lambda>c. []))\<lparr>board := promoBoard, heap := promoHeap\<rparr>"

definition promoSelected :: game where
  "promoSelected = promoGame\<lparr>selectedPiece := Some (0, 1), validMoves := [(0, 0)], validAttacks := []\<rparr>"

text \<open>
  What is looked at after the clicks: the piece of the pending promotion, the side to move,
  the type of object 0, and the cells a8, h8 and h7.
\<close>

definition pendingView ::
  "game \<Rightarrow> ref option \<times> color \<times> pieceType \<times> ref option \<times> ref option \<times> ref option" where
  "pendingView g = (map_option ppiece (pendingPromotion g), currentPlayer g, ptype (heap g 0),
                    board g (0, 0), board g (7, 0), board g (7, 1))"

section \<open>Reading a move back from the move log\<close>

text \<open>
  The client has no undo for local games: \<^verbatim>\<open>requestUndo\<close> pops two log entries and reports
  that restoring the board is not implemented. The inverse reconstruction of the round-trip
  property is therefore written here from the property's words: an entry
  \<^verbatim>\<open>symbol + from + ('x' | '-') + to\<close> is read back into the piece symbol, the from-square,
  the capture flag and the to-square, and the move is inverted by putting the piece that
  stands on the to-square back on the from-square and emptying the to-square. The entry
  holds nothing else to invert with.
\<close>

definition fileOf :: "char \<Rightarrow> int option" where
  "fileOf c = map_of (zip ''abcdefgh'' [0, 1, 2, 3, 4, 5, 6, 7]) c"

definition rankOf :: "char \<Rightarrow> int option" where
  "rankOf c = map_of (zip ''87654321'' [0, 1, 2, 3, 4, 5, 6, 7]) c"

definition parseSquare :: "char \<Rightarrow> char \<Rightarrow> square option" where
  "parseSquare f r =
     (case fileOf f of
        None \<Rightarrow> None
      | Some x \<Rightarrow> (case rankOf r of None \<Rightarrow> None | Some y \<Rightarrow> Some (x, y)))"

definition parseNotation :: "string \<Rightarrow> (string \<times> square \<times> bool \<times> square) option" where
  "parseNotation n =
     (case rev n of
        tr # tf # cap # fr # ff # rsym \<Rightarrow>
          (case parseSquare ff fr of
             None \<Rightarrow> None
           | Some from \<Rightarrow>
               (case parseSquare tf tr of
                  None \<Rightarrow> None
                | Some to \<Rightarrow> Some (rev rsym, from, cap = CHR ''x'', to)))
      | _ \<Rightarrow> None)"

definition undoFromLog :: "(square \<Rightarrow> piece option) \<Rightarrow> string \<Rightarrow> (square \<Rightarrow> piece option) option" where
  "undoFromLog v n =
     (case parseNotation n of
        None \<Rightarrow> None
      | Some (s, from, cap, to) \<Rightarrow> Some (v(from := v to, to := None)))"

text \<open>
  White rook a1 (object 0) with \<open>moved = m\<close>, white king e1 (object 1), black king e8
  (object 2); White has selected the rook.
\<close>

definition undoHeap :: "bool \<Rightarrow> heap" where
  "undoHeap m =
     (\<lambda>r. if r = 0 then \<lparr>color = White, ptype = Rook, moved = m\<rparr>
          else if r = 1 then \<lparr>color = White, ptype = King, moved = False\<rparr>
          else \<lparr>color = Black, ptype = King, moved = False\<rparr>)"

definition undoBoard :: board where
  "undoBoard = (\<lambda>sq. None)((0, 7) := Some 0, (4, 7) := Some 1, (4, 0) := Some 2)"

definition undoGame :: "bool \<Rightarrow> game" where
  "undoGame m = (startLocalGame emptyTable (\<lambda>c. []))
     \<lparr>board := undoBoard, heap := undoHeap m, selectedPiece := Some (0, 7),
      validMoves := [(0, 6), (0, 5), (0, 4), (0, 3), (0, 2), (0, 1), (0, 0), (1, 7), (2, 7), (3, 7)],
      validAttacks := []\<rparr>"

section \<open>The king-safety simulation restores the board\<close>

lemma simulate_restore:
  "b src = Some r \<Longrightarrow> ((b(src := None, m := Some r))(src := Some r, m := b m)) = b"
  by (rule ext) auto

lemma tryMoves_board:
  "b src = Some r \<Longrightarrow> snd (tryMoves h b c src r ms) = b"
proof (induction ms)
  case Nil
  then show ?case by simp
next
  case (Cons m ms)
  have "(b(src := None, m := Some r))(src := Some r, m := b m) = b"
    using Cons.prems by (rule simulate_restore)
  with Cons show ?case by (simp add: Let_def)
qed

lemma scanPieces_board:
  "snd (scanPieces h b c sqs) = b"
proof (induction sqs)
  case Nil
  then show ?case by simp
next
  case (Cons sq sqs)
  show ?case
  proof (cases "b sq")
    case None
    with Cons show ?thesis by simp
  next
    case (Some r)
    then have "snd (tryMoves h b c sq r ms) = b" for ms
      by (rule tryMoves_board)
    with Some Cons show ?thesis by (simp add: Let_def)
  qed
qed

lemma hasValidMoves_board: "snd (hasValidMoves h b c) = b"
  by (simp add: hasValidMoves_def scanPieces_board)

lemma filterSim_board:
  "b src = Some r \<Longrightarrow> snd (state (filterSim h b c src r ms)) = b"
proof (induction ms)
  case Nil
  then show ?case by (simp add: state_def)
next
  case (Cons m ms)
  have "(b(src := None, m := Some r))(src := Some r, m := b m) = b"
    using Cons.prems by (rule simulate_restore)
  with Cons show ?case
    by (cases "filterSim h b c src r ms") (simp_all add: Let_def state_def)
qed

lemma filterSim_Returned:
  "b src = Some r \<Longrightarrow> filterSim h b c src r ms = Returned res \<Longrightarrow> snd res = b"
  using filterSim_board [of b src r h c ms] by (simp add: state_def)

lemma filterSim_Threw:
  "b src = Some r \<Longrightarrow> filterSim h b c src r ms = Threw e res \<Longrightarrow> snd res = b"
  using filterSim_board [of b src r h c ms] by (simp add: state_def)

lemma filterMovesInCheck_frame:
  "board (state (filterMovesInCheck g)) = board g \<and> heap (state (filterMovesInCheck g)) = heap g \<and>
   currentPlayer (state (filterMovesInCheck g)) = currentPlayer g \<and>
   pendingPromotion (state (filterMovesInCheck g)) = pendingPromotion g \<and>
   selectedPiece (state (filterMovesInCheck g)) = selectedPiece g \<and>
   moveHistory (state (filterMovesInCheck g)) = moveHistory g"
proof (cases "selectedPiece g")
  case None
  then show ?thesis by (simp add: filterMovesInCheck_def state_def)
next
  case (Some src)
  show ?thesis
  proof (cases "fst src < 0 \<or> fst src > 7 \<or> board g src = None")
    case True
    with Some show ?thesis by (auto simp: filterMovesInCheck_def state_def)
  next
    case False
    then obtain r where r: "board g src = Some r" and rng: "\<not> (fst src < 0 \<or> fst src > 7)"
      by auto
    show ?thesis
    proof (cases "filterSim (heap g) (board g) (color (heap g r)) src r (validMoves g)")
      case (Threw e fm)
      from filterSim_Threw [OF r Threw] Some rng r Threw show ?thesis
        by (simp add: filterMovesInCheck_def state_def Let_def)
    next
      case fmr: (Returned fm)
      have b1: "snd fm = board g"
        using r fmr by (rule filterSim_Returned)
      show ?thesis
      proof (cases "filterSim (heap g) (board g) (color (heap g r)) src r (validAttacks g)")
        case (Threw e fa)
        from filterSim_Threw [OF r Threw] Some rng r fmr b1 Threw show ?thesis
          by (simp add: filterMovesInCheck_def state_def Let_def)
      next
        case far: (Returned fa)
        from filterSim_Returned [OF r far] Some rng r fmr b1 far show ?thesis
          by (simp add: filterMovesInCheck_def state_def Let_def)
      qed
    qed
  qed
qed

lemma filterMovesInCheck_board: "board (state (filterMovesInCheck g)) = board g"
  by (simp add: filterMovesInCheck_frame)

lemma isCheckmate_board: "snd (isCheckmate h b c) = b"
  by (simp add: isCheckmate_def Let_def hasValidMoves_board)

lemma isStalemate_board: "snd (isStalemate h b c) = b"
  by (simp add: isStalemate_def Let_def hasValidMoves_board)

section \<open>What \<^verbatim>\<open>hasValidMoves\<close> decides\<close>

lemma tryMoves_found:
  "b src = Some r \<Longrightarrow>
   fst (tryMoves h b c src r ms) = list_ex (\<lambda>m. \<not> isInCheck h (played b src m r) c) ms"
proof (induction ms)
  case Nil
  then show ?case by simp
next
  case (Cons m ms)
  have "(b(src := None, m := Some r))(src := Some r, m := b m) = b"
    using Cons.prems by (rule simulate_restore)
  moreover have "b(src := None, m := Some r) = played b src m r"
    by (simp add: played_def)
  ultimately show ?case using Cons by (simp add: Let_def)
qed

lemma scanPieces_found:
  "fst (scanPieces h b c sqs) = list_ex (survives h b c) sqs"
proof (induction sqs)
  case Nil
  then show ?case by simp
next
  case (Cons sq sqs)
  show ?case
  proof (cases "b sq")
    case None
    with Cons show ?thesis by (simp add: survives_def)
  next
    case (Some r)
    have bd: "snd (tryMoves h b c sq r ms) = b" for ms
      using Some by (rule tryMoves_board)
    have fd: "fst (tryMoves h b c sq r ms) =
              list_ex (\<lambda>m. \<not> isInCheck h (played b sq m r) c) ms" for ms
      using Some by (rule tryMoves_found)
    from Some Cons show ?thesis
      by (simp add: Let_def survives_def bd fd)
  qed
qed

section \<open>Claims about check, mate and stalemate\<close>

text \<open>
  C9. The queries leave the board as it was. \<^verbatim>\<open>isInCheck\<close> and \<^verbatim>\<open>getPieceMoves\<close> contain no
  assignment to the board and are functions of the store and the board here.
  \<^verbatim>\<open>hasValidMoves\<close> and \<^verbatim>\<open>filterMovesInCheck\<close> write the source and the destination cell
  for every candidate and write both back; the board they leave is, cell for cell, the
  board they were given, whatever the position, the colour and the candidate lists.
  The same holds for \<^verbatim>\<open>isCheckmate\<close> and \<^verbatim>\<open>isStalemate\<close>, which call them.
\<close>

theorem queries_restore_board:
  "snd (hasValidMoves h b c) = b \<and>
   board (state (filterMovesInCheck g)) = board g \<and>
   heap (state (filterMovesInCheck g)) = heap g \<and>
   snd (isCheckmate h b c) = b \<and>
   snd (isStalemate h b c) = b"
proof -
  have "heap (state (filterMovesInCheck g)) = heap g"
    by (simp add: filterMovesInCheck_frame)
  then show ?thesis
    by (simp add: hasValidMoves_board filterMovesInCheck_board isCheckmate_board isStalemate_board)
qed

theorem queries_restore_board_witness:
  "snd (hasValidMoves mateHeap mateBoard Black) = mateBoard \<and>
   board (state (filterMovesInCheck cardGameSelected)) = cardBoard"
  using queries_restore_board [of mateHeap mateBoard Black cardGameSelected]
  by (simp add: cardGameSelected_def cardGame_def)

text \<open>
  C3. On every board and for both colours exactly one of \<^verbatim>\<open>isCheckmate(color)\<close>,
  \<^verbatim>\<open>isStalemate(color)\<close> and \<^verbatim>\<open>hasValidMoves(color)\<close> holds. \<^verbatim>\<open>hasValidMoves\<close> holds iff some
  piece of the colour has a destination of \<^verbatim>\<open>getPieceMoves\<close> after which the colour is
  not in check; checkmate is check without such a move, stalemate is no check without such
  a move. Each of the three calls returns the board it was given, so the three answers are
  about the same position.
\<close>

theorem mate_stalemate_moves_exactly_one:
  "(let cm = fst (isCheckmate h b c);
        sm = fst (isStalemate h b c);
        hv = fst (hasValidMoves h b c)
    in ((cm \<and> \<not> sm \<and> \<not> hv) \<or> (\<not> cm \<and> sm \<and> \<not> hv) \<or> (\<not> cm \<and> \<not> sm \<and> hv)) \<and>
       hv = list_ex (survives h b c) allSquares \<and>
       cm = (isInCheck h b c \<and> \<not> hv) \<and>
       sm = (\<not> isInCheck h b c \<and> \<not> hv)) \<and>
   snd (isCheckmate h b c) = b \<and> snd (isStalemate h b c) = b \<and> snd (hasValidMoves h b c) = b"
proof -
  have hv: "fst (hasValidMoves h b c) = list_ex (survives h b c) allSquares"
    by (simp add: hasValidMoves_def scanPieces_found)
  have cm: "fst (isCheckmate h b c) = (isInCheck h b c \<and> \<not> fst (hasValidMoves h b c))"
    by (simp add: isCheckmate_def Let_def)
  have sm: "fst (isStalemate h b c) = (\<not> isInCheck h b c \<and> \<not> fst (hasValidMoves h b c))"
    by (simp add: isStalemate_def Let_def)
  have "snd (isCheckmate h b c) = b" "snd (isStalemate h b c) = b" "snd (hasValidMoves h b c) = b"
    by (rule isCheckmate_board, rule isStalemate_board, rule hasValidMoves_board)
  with hv cm sm show ?thesis
    unfolding Let_def by blast
qed

theorem mate_stalemate_moves_exactly_one_witness:
  "fst (isCheckmate mateHeap mateBoard Black) \<and>
   \<not> fst (isStalemate mateHeap mateBoard Black) \<and>
   \<not> fst (hasValidMoves mateHeap mateBoard Black) \<and>
   isInCheck mateHeap mateBoard Black"
proof -
  have "fst (isCheckmate mateHeap mateBoard Black)"
    by code_simp
  with mate_stalemate_moves_exactly_one [of mateHeap mateBoard Black]
  show ?thesis
    unfolding Let_def by blast
qed

section \<open>Claims about check detection and king capture\<close>

lemma upto_0_7: "[0, 1, 2, 3, 4, 5, 6, 7] = [0..7::int]"
  by code_simp

lemma set_allSquares: "set allSquares = {0..7} \<times> {0..7}"
  unfolding allSquares_def upto_0_7 by simp

lemma findKing_None:
  "(findKing h b c = None) = (\<forall>x\<in>{0..7}. \<forall>y\<in>{0..7}. \<not> isKingOf h b c (x, y))"
  by (auto simp: findKing_def find_None_iff set_allSquares)

lemma findKing_Some:
  assumes "findKing h b c = Some k"
  shows "isKingOf h b c k \<and> k \<in> {0..7} \<times> {0..7}"
proof -
  from assms have "isKingOf h b c k" "k \<in> set allSquares"
    unfolding findKing_def find_Some_iff by (auto intro: nth_mem)
  then show ?thesis by (simp add: set_allSquares)
qed

lemma attacked_iff:
  "list_ex (attacksSquare h b opp k) allSquares =
   (\<exists>x\<in>{0..7}. \<exists>y\<in>{0..7}. \<exists>r. b (x, y) = Some r \<and> color (h r) = opp \<and>
        k \<in> set (snd (getPieceMoves h b x y)))"
proof -
  have "attacksSquare h b opp k (x, y) =
        (\<exists>r. b (x, y) = Some r \<and> color (h r) = opp \<and> k \<in> set (snd (getPieceMoves h b x y)))"
    for x y
    by (cases "b (x, y)") (simp_all add: attacksSquare_def)
  then show ?thesis
    by (simp add: list_ex_iff set_allSquares)
qed

text \<open>
  C1, as the code has it. \<^verbatim>\<open>isInCheck(color)\<close> is true iff a king of the colour stands on
  the board and some piece of the other colour has the square of the king that the scan
  finds among the attacks \<^verbatim>\<open>getPieceMoves\<close> returns for it. \<^verbatim>\<open>getPieceMoves\<close> is the base
  geometry: it never reads \<^verbatim>\<open>customMoves\<close>, so the answer is the same under every card
  table. The scan finds no king iff no square of the board holds one, and a king it finds
  is a king of the colour on the board (so it is the king when there is only one).
\<close>

theorem isInCheck_base_geometry:
  "isInCheck h b c =
     (\<exists>k. findKing h b c = Some k \<and>
          (\<exists>x\<in>{0..7}. \<exists>y\<in>{0..7}. \<exists>r. b (x, y) = Some r \<and> color (h r) = other c \<and>
               k \<in> set (snd (getPieceMoves h b x y)))) \<and>
   (findKing h b c = None) = (\<forall>x\<in>{0..7}. \<forall>y\<in>{0..7}. \<not> isKingOf h b c (x, y)) \<and>
   (\<forall>k. findKing h b c = Some k \<longrightarrow> isKingOf h b c k \<and> k \<in> {0..7} \<times> {0..7}) \<and>
   isInCheck (heap (g\<lparr>customMoves := cm\<rparr>)) (board (g\<lparr>customMoves := cm\<rparr>)) c =
     isInCheck (heap g) (board g) c"
proof -
  have "isInCheck h b c =
     (\<exists>k. findKing h b c = Some k \<and>
          (\<exists>x\<in>{0..7}. \<exists>y\<in>{0..7}. \<exists>r. b (x, y) = Some r \<and> color (h r) = other c \<and>
               k \<in> set (snd (getPieceMoves h b x y))))"
    by (cases "findKing h b c") (simp_all add: isInCheck_def attacked_iff)
  moreover have "\<forall>k. findKing h b c = Some k \<longrightarrow> isKingOf h b c k \<and> k \<in> {0..7} \<times> {0..7}"
    using findKing_Some by blast
  ultimately show ?thesis
    using findKing_None [of h b c] by simp
qed

theorem isInCheck_base_geometry_witness:
  "findKing mateHeap mateBoard Black = Some (0, 0) \<and>
   isKingOf mateHeap mateBoard Black (0, 0) \<and>
   isInCheck mateHeap mateBoard Black \<and>
   (\<exists>x\<in>{0..7}. \<exists>y\<in>{0..7}. \<exists>r. mateBoard (x, y) = Some r \<and> color (mateHeap r) = other Black \<and>
        (0, 0) \<in> set (snd (getPieceMoves mateHeap mateBoard x y)))"
proof -
  have k: "findKing mateHeap mateBoard Black = Some (0, 0)"
    by code_simp
  have c: "isInCheck mateHeap mateBoard Black"
    by code_simp
  from isInCheck_base_geometry [of mateHeap mateBoard Black] k c
  show ?thesis by simp
qed

text \<open>
  The claim as stated fails: with the enabled card, the black rook on d2 attacks the white
  king on e1 (\<^verbatim>\<open>calculateValidMoves\<close> lists the king's square among the rook's attacks),
  and \<^verbatim>\<open>isInCheck('white')\<close> is false.
\<close>

theorem isInCheck_ignores_card_attacks:
  "isKingOf (heap cardGame) (board cardGame) White (4, 7) \<and>
   map_option (\<lambda>r. color (heap cardGame r)) (board cardGame (3, 6)) = Some Black \<and>
   map_option enabled (map_of (abilityCards cardGame Black) ''diag'') = Some None \<and>
   map_option attacks (customMoves cardGame Black Rook) = Some [(1, 1)] \<and>
   validAttacks (calculateValidMoves cardGame 3 6) = [(4, 7)] \<and>
   \<not> isInCheck (heap cardGame) (board cardGame) White"
  by code_simp

text \<open>
  C6. When the click is accepted as a move of the selected piece and the destination
  holds the other side's king, \<^verbatim>\<open>handleLocalClick\<close> returns at once: the only change is
  that the result is recorded for the mover's colour and the game-over display is shown
  for it with the reason "king eaten". The board, the store, the side to move, the
  selection and the move history are as before, and nothing of the check, mate and
  stalemate report is produced.
\<close>

theorem king_capture_ends_game:
  assumes "selectedPiece g = Some src"
    and "(x, y) \<in> set (validMoves g) \<union> set (validAttacks g)"
    and "0 \<le> x" and "x \<le> 7"
    and "board g src = Some r"
    and "board g (x, y) = Some k"
    and "ptype (heap g k) = King"
    and "color (heap g k) = other (color (heap g r))"
  shows "handleLocalClick g x y =
           Returned (g\<lparr>effects := effects g @
              [RecordWin (color (heap g r)), GameOver (Some (color (heap g r))) KingEaten]\<rparr>)"
  using assms by (auto simp: handleLocalClick_def commitMove_def Let_def)

theorem king_capture_ends_game_witness:
  "selectedPiece cardGameSelected = Some (3, 6) \<and>
   (4, 7) \<in> set (validMoves cardGameSelected) \<union> set (validAttacks cardGameSelected) \<and>
   board cardGameSelected (3, 6) = Some 1 \<and>
   board cardGameSelected (4, 7) = Some 0 \<and>
   ptype (heap cardGameSelected 0) = King \<and>
   color (heap cardGameSelected 0) = other (color (heap cardGameSelected 1)) \<and>
   handleLocalClick cardGameSelected 4 7 =
     Returned (cardGameSelected\<lparr>effects := [RecordWin Black, GameOver (Some Black) KingEaten]\<rparr>)"
proof -
  have h1: "selectedPiece cardGameSelected = Some (3, 6)"
    and h2: "(4, 7) \<in> set (validMoves cardGameSelected) \<union> set (validAttacks cardGameSelected)"
    and h3: "board cardGameSelected (3, 6) = Some 1"
    and h4: "board cardGameSelected (4, 7) = Some 0"
    and h5: "ptype (heap cardGameSelected 0) = King"
    and h6: "color (heap cardGameSelected 0) = other (color (heap cardGameSelected 1))"
    and h7: "color (heap cardGameSelected 1) = Black" "effects cardGameSelected = []"
    by (simp_all add: cardGameSelected_def cardGame_def startLocalGame_def cardBoard_def
          cardHeap_def other_def)
  from king_capture_ends_game [OF h1 h2 _ _ h3 h4 h5 h6] h1 h2 h3 h4 h5 h6 h7
  show ?thesis by simp
qed

section \<open>Claims about the card registry\<close>

lemma toggleEnabled_twice: "(toggleEnabled (toggleEnabled e) = Some False) = (e = Some False)"
  by (cases e) (auto simp: toggleEnabled_def)

lemma rebuildCard_toggle_twice:
  "rebuildCard t (cd\<lparr>enabled := toggleEnabled (toggleEnabled (enabled cd))\<rparr>) = rebuildCard t cd"
  by (simp add: rebuildCard_def toggleEnabled_twice)

lemma foldl_rebuildCard_update:
  "map_of xs name = Some cd \<Longrightarrow> (\<forall>t. rebuildCard t cd' = rebuildCard t cd) \<Longrightarrow>
   foldl rebuildCard t (map snd (AList.update name cd' xs)) = foldl rebuildCard t (map snd xs)"
proof (induction xs arbitrary: t)
  case Nil
  then show ?case by simp
next
  case (Cons p xs)
  then show ?case by (cases p) (auto split: if_splits)
qed

lemma rebuildTable_update:
  assumes "map_of (cards c) name = Some cd" "\<forall>t. rebuildCard t cd' = rebuildCard t cd"
  shows "rebuildTable (cards(c := AList.update name cd' (cards c))) = rebuildTable cards"
proof (rule ext)
  fix col
  show "rebuildTable (cards(c := AList.update name cd' (cards c))) col = rebuildTable cards col"
    using foldl_rebuildCard_update [OF assms] by (simp add: rebuildTable_def)
qed

lemma toggleCard_twice_cards:
  assumes "map_of (abilityCards g c) name = Some cd"
  shows "abilityCards (toggleCard (toggleCard g c name) c name) =
         (abilityCards g)(c := AList.update name
            (cd\<lparr>enabled := toggleEnabled (toggleEnabled (enabled cd))\<rparr>) (abilityCards g c))"
  using assms
  by (simp add: toggleCard_def Let_def rebuildCustomMoves_def update_conv')

lemma toggleCard_twice_offline:
  assumes "map_of (abilityCards g c) name = Some cd" "\<not> online g"
  shows "customMoves (toggleCard (toggleCard g c name) c name) = rebuildTable (abilityCards g)"
proof -
  have "customMoves (toggleCard (toggleCard g c name) c name) =
        rebuildTable ((abilityCards g)(c := AList.update name
           (cd\<lparr>enabled := toggleEnabled (toggleEnabled (enabled cd))\<rparr>) (abilityCards g c)))"
    using assms by (simp add: toggleCard_def Let_def rebuildCustomMoves_def update_conv')
  also have "\<dots> = rebuildTable (abilityCards g)"
    using assms(1) by (intro rebuildTable_update) (auto simp: rebuildCard_toggle_twice)
  finally show ?thesis .
qed

lemma toggleCard_online:
  "online g \<Longrightarrow> customMoves (toggleCard g c name) = customMoves g \<and> online (toggleCard g c name)"
  by (simp add: toggleCard_def Let_def split: option.splits)

lemma toggleCard_absent:
  "map_of (abilityCards g c) name = None \<Longrightarrow> toggleCard g c name = g"
  by (simp add: toggleCard_def)

text \<open>
  C4. Toggling a card twice gives back the derived table. If the table is the one derived
  from the cards (the union, in enumeration order, of the offsets of the cards that are not
  disabled), it is the same table after two calls of \<^verbatim>\<open>toggleCard(color, name)\<close>. In a local
  game each call rebuilds the table from all cards, so after two calls on an existing card
  the table is the derived one whatever it was before; and in every case the cards after
  two calls derive the same table as the cards before.
\<close>

theorem toggleCard_twice_restores_table:
  "(customMoves g = rebuildTable (abilityCards g) \<longrightarrow>
      customMoves (toggleCard (toggleCard g c name) c name) = customMoves g) \<and>
   (\<not> online g \<and> map_of (abilityCards g c) name \<noteq> None \<longrightarrow>
      customMoves (toggleCard (toggleCard g c name) c name) = rebuildTable (abilityCards g)) \<and>
   rebuildTable (abilityCards (toggleCard (toggleCard g c name) c name)) =
     rebuildTable (abilityCards g)"
proof (cases "map_of (abilityCards g c) name")
  case None
  then show ?thesis by (simp add: toggleCard_absent)
next
  case (Some cd)
  have cards: "rebuildTable (abilityCards (toggleCard (toggleCard g c name) c name)) =
               rebuildTable (abilityCards g)"
    using Some by (simp add: toggleCard_twice_cards rebuildTable_update rebuildCard_toggle_twice)
  show ?thesis
  proof (cases "online g")
    case True
    then show ?thesis
      using cards toggleCard_online [of g c name]
        toggleCard_online [of "toggleCard g c name" c name] by simp
  next
    case False
    with Some cards show ?thesis by (simp add: toggleCard_twice_offline)
  qed
qed

theorem toggleCard_twice_restores_table_witness:
  "customMoves twoCardsGame = rebuildTable (abilityCards twoCardsGame) \<and>
   \<not> online twoCardsGame \<and>
   map_of (abilityCards twoCardsGame White) ''A'' \<noteq> None \<and>
   customMoves (toggleCard (toggleCard twoCardsGame White ''A'') White ''A'') = customMoves twoCardsGame"
proof -
  have h: "customMoves twoCardsGame = rebuildTable (abilityCards twoCardsGame)"
    "\<not> online twoCardsGame" "map_of (abilityCards twoCardsGame White) ''A'' \<noteq> None"
    by (simp_all add: twoCardsGame_def startLocalGame_def twoCards_def)
  with toggleCard_twice_restores_table [of twoCardsGame White "''A''"]
  show ?thesis by simp
qed

text \<open>
  C2 at a concrete registry: \<open>A\<close> and \<open>B\<close> are enabled rook cards of White and both
  contribute \<open>(1, 1)\<close>. After \<^verbatim>\<open>deleteCard('white', 'A')\<close> the table holds only \<open>(2, 2)\<close> for the
  white rook: the offset \<open>(1, 1)\<close> of the card \<open>B\<close>, which is still there and enabled, is
  gone, while the table derived from the remaining cards holds both offsets.
\<close>

theorem deleteCard_drops_shared_offset:
  "map_option moves (customMoves twoCardsGame White Rook) = Some [(1, 1), (2, 2)] \<and>
   map fst (abilityCards (deleteCard twoCardsGame White ''A'') White) = [''B''] \<and>
   map_option moves (map_of (abilityCards (deleteCard twoCardsGame White ''A'') White) ''B'')
     = Some [(1, 1), (2, 2)] \<and>
   map_option enabled (map_of (abilityCards (deleteCard twoCardsGame White ''A'') White) ''B'')
     = Some (Some True) \<and>
   map_option moves (customMoves (deleteCard twoCardsGame White ''A'') White Rook) = Some [(2, 2)] \<and>
   map_option moves (rebuildTable (abilityCards (deleteCard twoCardsGame White ''A'')) White Rook)
     = Some [(1, 1), (2, 2)]"
  by code_simp

section \<open>Claims about sliding pieces\<close>

lemma addMove_cases:
  "addMove h b p nx ny acc =
     (if emptySq b (nx, ny) then (True, (fst acc @ [(nx, ny)], snd acc))
      else if enemySq h b p (nx, ny) then (False, (fst acc, snd acc @ [(nx, ny)]))
      else (False, acc))"
  by (auto simp: addMove_def emptySq_def enemySq_def onBoard_def split: option.splits)

lemma slide_walk:
  "slide h b p x y d i acc =
     (fst acc @ map (raySquare x y d) (takeWhile (\<lambda>j. emptySq b (raySquare x y d j)) [i..7]),
      snd acc @ (let k = i + int (length (takeWhile (\<lambda>j. emptySq b (raySquare x y d j)) [i..7]))
                 in if k \<le> 7 \<and> enemySq h b p (raySquare x y d k) then [raySquare x y d k] else []))"
proof (induction h b p x y d i acc rule: slide.induct)
  case (1 h b p x y d i acc)
  show ?case
  proof (cases "i < 8")
    case False
    then show ?thesis by (subst slide.simps) simp
  next
    case True
    then have up: "[i..7] = i # [i + 1..7]"
      by (simp add: upto_rec1)
    show ?thesis
    proof (cases "emptySq b (raySquare x y d i)")
      case e: True
      then have am: "addMove h b p (x + fst d * i) (y + snd d * i) acc =
                     (True, (fst acc @ [raySquare x y d i], snd acc))"
        by (simp add: addMove_cases raySquare_def)
      have st: "slide h b p x y d i acc = slide h b p x y d (i + 1) (fst acc @ [raySquare x y d i], snd acc)"
        using True am by (subst slide.simps) simp
      have "fst (addMove h b p (x + fst d * i) (y + snd d * i) acc)"
        using am by simp
      from "1.IH" [OF True refl this]
      show ?thesis
        using e am up st by (simp add: Let_def add.assoc)
    next
      case ne: False
      then have "slide h b p x y d i acc = snd (addMove h b p (x + fst d * i) (y + snd d * i) acc)"
        using True by (subst slide.simps) (simp add: addMove_cases raySquare_def Let_def)
      with ne True up show ?thesis
        by (simp add: addMove_cases raySquare_def Let_def)
    qed
  qed
qed

lemma slide_ray:
  "slide h b p x y d 1 acc = (fst acc @ rayMoves b x y d, snd acc @ rayAttacks h b p x y d)"
  by (simp add: slide_walk rayMoves_def rayAttacks_def Let_def)

lemma slideAll_rays:
  "slideAll h b p x y ds acc =
     (fst acc @ concat (map (rayMoves b x y) ds), snd acc @ concat (map (rayAttacks h b p x y) ds))"
proof (induction ds arbitrary: acc)
  case Nil
  then show ?case by (simp add: slideAll_def)
next
  case (Cons d ds)
  then show ?case by (simp add: slideAll_def slide_ray)
qed

text \<open>
  C7. For a rook, bishop or queen on \<open>(x, y)\<close>, \<^verbatim>\<open>getPieceMoves\<close> returns, ray after ray in the
  order of the piece's direction list, as moves the empty squares of the ray in walking
  order up to (not including) the first square that is off the board or occupied, and as
  attack that first occupied square iff it holds a piece of the other colour; a friendly
  piece there adds nothing, and nothing beyond it is visited. The \<^verbatim>\<open>switch\<close> of
  \<^verbatim>\<open>calculateValidMoves\<close> computes the same two lists before the card offsets are added.
\<close>

theorem sliding_rays:
  assumes "b (x, y) = Some r" and "ptype (h r) \<in> {Rook, Bishop, Queen}"
  shows "getPieceMoves h b x y =
           (concat (map (rayMoves b x y) (raysOf (ptype (h r)))),
            concat (map (rayAttacks h b (h r) x y) (raysOf (ptype (h r))))) \<and>
         baseDests h b (h r) x y = getPieceMoves h b x y"
  using assms
  by (auto simp: getPieceMoves_def baseDests_def raysOf_def slideAll_rays Let_def)

theorem sliding_rays_witness:
  "rayBoard (3, 3) = Some 0 \<and> ptype (rayHeap 0) \<in> {Rook, Bishop, Queen} \<and>
   getPieceMoves rayHeap rayBoard 3 3 =
     ([(3, 4), (3, 5), (3, 6), (3, 7), (3, 2), (4, 3), (5, 3), (2, 3), (1, 3), (0, 3)], [(6, 3)]) \<and>
   concat (map (rayMoves rayBoard 3 3) (raysOf (ptype (rayHeap 0)))) =
     [(3, 4), (3, 5), (3, 6), (3, 7), (3, 2), (4, 3), (5, 3), (2, 3), (1, 3), (0, 3)] \<and>
   rayAttacks rayHeap rayBoard (rayHeap 0) 3 3 (0, -1) = [] \<and>
   rayAttacks rayHeap rayBoard (rayHeap 0) 3 3 (1, 0) = [(6, 3)]"
proof -
  have h1: "rayBoard (3, 3) = Some 0" and h2: "ptype (rayHeap 0) \<in> {Rook, Bishop, Queen}"
    by (simp_all add: rayBoard_def rayHeap_def)
  have e1: "concat (map (rayMoves rayBoard 3 3) (raysOf (ptype (rayHeap 0)))) =
     [(3, 4), (3, 5), (3, 6), (3, 7), (3, 2), (4, 3), (5, 3), (2, 3), (1, 3), (0, 3)]"
    by code_simp
  have e2: "concat (map (rayAttacks rayHeap rayBoard (rayHeap 0) 3 3) (raysOf (ptype (rayHeap 0)))) = [(6, 3)]"
    by code_simp
  have e3: "rayAttacks rayHeap rayBoard (rayHeap 0) 3 3 (0, -1) = []"
    "rayAttacks rayHeap rayBoard (rayHeap 0) 3 3 (1, 0) = [(6, 3)]"
    by code_simp+
  from sliding_rays [of rayBoard 3 3 0 rayHeap, OF h1 h2] h1 h2 e1 e2 e3 show ?thesis
    by simp
qed

section \<open>Claims about local play in the v2.5 client\<close>

lemma v25_self_check_reached:
  "(let g' = clicks25 (startLocalGame emptyTable (\<lambda>c. [])) selfCheckClicks
           in currentPlayer g' = White \<and>
              lastMove g' = Some ((0, 1), (0, 2)) \<and>
              map_option (\<lambda>q. color (heap g' q)) (board g' (0, 2)) = Some Black \<and>
              isKingOf (heap g') (board g') Black (4, 0) \<and>
              map_option (\<lambda>q. color (heap g' q)) (board g' (1, 3)) = Some White \<and>
              (4, 0) \<in> set (validAttacks (calculateValidMoves g' 1 3)))"
  unfolding selfCheckClicks_def by code_simp

text \<open>
  C10. In the v2.5 client a click on a piece of the side to move stores exactly the two
  lists of \<^verbatim>\<open>calculateValidMoves\<close>, with no legality filter, and the next click commits the
  move iff its square is in one of the two lists (any other click moves nothing). From the
  start of a local game the clicks of 1. e4 d5 2. Bb5+ a6 are all accepted: Black's pawn
  move is committed although the white bishop attacks the black king before and after it.
\<close>

theorem v25_commits_unfiltered_moves:
  "(0 \<le> x \<and> x \<le> 7 \<and>
      (selectedPiece g = None \<or> (x, y) \<notin> set (validMoves g) \<union> set (validAttacks g)) \<and>
      board g (x, y) = Some r \<and> color (heap g r) = currentPlayer g \<longrightarrow>
      handleLocalClick25 g x y = Returned (calculateValidMoves (g\<lparr>selectedPiece := Some (x, y)\<rparr>) x y)) \<and>
   (0 \<le> x \<and> x \<le> 7 \<and> selectedPiece g = Some src \<and> board g src = Some r \<longrightarrow>
      (if (x, y) \<in> set (validMoves g) \<union> set (validAttacks g)
       then \<exists>g'. handleLocalClick25 g x y = Returned g' \<and>
                 board g' = (board g)(src := None, (x, y) := Some r) \<and>
                 currentPlayer g' = other (currentPlayer g)
       else \<exists>g'. handleLocalClick25 g x y = Returned g' \<and> board g' = board g \<and>
                 currentPlayer g' = currentPlayer g)) \<and>
   (\<exists>cs. let g' = clicks25 (startLocalGame emptyTable (\<lambda>c. [])) cs
           in currentPlayer g' = White \<and>
              lastMove g' = Some ((0, 1), (0, 2)) \<and>
              map_option (\<lambda>q. color (heap g' q)) (board g' (0, 2)) = Some Black \<and>
              isKingOf (heap g') (board g') Black (4, 0) \<and>
              map_option (\<lambda>q. color (heap g' q)) (board g' (1, 3)) = Some White \<and>
              (4, 0) \<in> set (validAttacks (calculateValidMoves g' 1 3)))"
proof -
  have a: "0 \<le> x \<and> x \<le> 7 \<and>
      (selectedPiece g = None \<or> (x, y) \<notin> set (validMoves g) \<union> set (validAttacks g)) \<and>
      board g (x, y) = Some r \<and> color (heap g r) = currentPlayer g \<longrightarrow>
      handleLocalClick25 g x y = Returned (calculateValidMoves (g\<lparr>selectedPiece := Some (x, y)\<rparr>) x y)"
    by (auto simp: handleLocalClick25_def Let_def split: option.splits)
  have b: "0 \<le> x \<and> x \<le> 7 \<and> selectedPiece g = Some src \<and> board g src = Some r \<longrightarrow>
      (if (x, y) \<in> set (validMoves g) \<union> set (validAttacks g)
       then \<exists>g'. handleLocalClick25 g x y = Returned g' \<and>
                 board g' = (board g)(src := None, (x, y) := Some r) \<and>
                 currentPlayer g' = other (currentPlayer g)
       else \<exists>g'. handleLocalClick25 g x y = Returned g' \<and> board g' = board g \<and>
                 currentPlayer g' = currentPlayer g)"
    by (auto simp: handleLocalClick25_def commitMove25_def addMoveToHistory_def deselectPiece_def
          calculateValidMoves_def Let_def split: option.splits)
  from a b v25_self_check_reached show ?thesis by blast
qed

theorem v25_commits_unfiltered_moves_witness:
  "selectedPiece cardGameSelected = Some (3, 6) \<and> board cardGameSelected (3, 6) = Some 1 \<and>
   (3, 7) \<in> set (validMoves cardGameSelected) \<union> set (validAttacks cardGameSelected) \<and>
   (\<exists>g'. handleLocalClick25 cardGameSelected 3 7 = Returned g' \<and>
         board g' = (board cardGameSelected)((3, 6) := None, (3, 7) := Some 1) \<and>
         currentPlayer g' = other (currentPlayer cardGameSelected))"
proof -
  have h: "selectedPiece cardGameSelected = Some (3, 6)" "board cardGameSelected (3, 6) = Some 1"
    "(3, 7) \<in> set (validMoves cardGameSelected) \<union> set (validAttacks cardGameSelected)"
    by (simp_all add: cardGameSelected_def cardGame_def startLocalGame_def cardBoard_def)
  with v25_commits_unfiltered_moves
    [where x = 3 and y = 7 and g = cardGameSelected and r = 1 and src = "(3, 6)"]
  show ?thesis by simp
qed

section \<open>Claims about promotion\<close>

lemma reportStatus_frame:
  "board (reportStatus g opp m) = board g \<and> heap (reportStatus g opp m) = heap g \<and>
   currentPlayer (reportStatus g opp m) = currentPlayer g \<and>
   pendingPromotion (reportStatus g opp m) = pendingPromotion g \<and>
   selectedPiece (reportStatus g opp m) = selectedPiece g \<and>
   moveHistory (reportStatus g opp m) = moveHistory g"
  by (simp add: reportStatus_def Let_def isCheckmate_board isStalemate_board)

lemma calculateValidMoves_frame:
  "board (calculateValidMoves g x y) = board g \<and> heap (calculateValidMoves g x y) = heap g \<and>
   currentPlayer (calculateValidMoves g x y) = currentPlayer g \<and>
   pendingPromotion (calculateValidMoves g x y) = pendingPromotion g \<and>
   selectedPiece (calculateValidMoves g x y) = selectedPiece g \<and>
   moveHistory (calculateValidMoves g x y) = moveHistory g"
  by (simp add: calculateValidMoves_def Let_def split: option.splits)

lemma pending_entered:
  assumes "selectedPiece g = Some src" and "board g src = Some r" and "ptype (heap g r) = Pawn"
    and "(x, y) \<in> set (validMoves g) \<union> set (validAttacks g)"
    and "0 \<le> x" and "x \<le> 7" and "y = 0 \<or> y = 7"
    and "\<forall>k. board g (x, y) = Some k \<longrightarrow> ptype (heap g k) \<noteq> King"
  shows "handleLocalClick g x y =
           Returned (g\<lparr>board := (board g)(src := None, (x, y) := Some r),
                       heap := (heap g)(r := (heap g r)\<lparr>moved := True\<rparr>),
                       lastMove := Some (src, (x, y)),
                       pendingPromotion := Some \<lparr>px = x, py = y, ppiece = r, pfrom = src,
                                                pcaptured = board g (x, y)\<rparr>,
                       effects := effects g @ [PromotionModalShown]\<rparr>)"
proof -
  have nk: "\<not> (case board g (x, y) of None \<Rightarrow> False | Some cr \<Rightarrow> ptype (heap g cr) = King)"
    using assms(8) by (cases "board g (x, y)") auto
  have hc: "handleLocalClick g x y = commitMove g src x y"
    using assms(1,4,5,6) by (auto simp: handleLocalClick_def Let_def)
  show ?thesis
    unfolding hc using nk assms(2,3,7)
    by (simp add: commitMove_def Let_def)
qed

lemma pending_click:
  assumes "selectedPiece g = Some src" and "board g src = None"
  shows "currentPlayer (state (handleLocalClick g cx cy)) = currentPlayer g \<and>
         pendingPromotion (state (handleLocalClick g cx cy)) = pendingPromotion g \<and>
         heap (state (handleLocalClick g cx cy)) = heap g \<and>
         moveHistory (state (handleLocalClick g cx cy)) = moveHistory g \<and>
         (\<forall>sq q. selectedPiece (state (handleLocalClick g cx cy)) = Some sq \<and>
                 board (state (handleLocalClick g cx cy)) sq = Some q \<longrightarrow>
                 color (heap g q) = currentPlayer g)"
proof (cases "cx < 0 \<or> cx > 7")
  case True
  then show ?thesis using assms by (auto simp: handleLocalClick_def state_def)
next
  case inr: False
  show ?thesis
  proof (cases "(cx, cy) \<in> set (validMoves g) \<or> (cx, cy) \<in> set (validAttacks g)")
    case True
    then have "handleLocalClick g cx cy = commitMove g src cx cy"
      using inr assms(1) by (simp add: handleLocalClick_def Let_def)
    then show ?thesis
      using assms by (auto simp: commitMove_def Let_def state_def split: option.splits)
  next
    case nl: False
    show ?thesis
    proof (cases "case board g (cx, cy) of None \<Rightarrow> False | Some q \<Rightarrow> color (heap g q) = currentPlayer g")
      case True
      then have "handleLocalClick g cx cy =
                 filterMovesInCheck (calculateValidMoves (g\<lparr>selectedPiece := Some (cx, cy)\<rparr>) cx cy)"
        using inr nl assms(1) by (simp add: handleLocalClick_def Let_def)
      then show ?thesis
        using True by (auto simp: filterMovesInCheck_frame calculateValidMoves_frame split: option.splits)
    next
      case False
      then have "handleLocalClick g cx cy = Returned (deselectPiece g)"
        using inr nl assms(1) by (simp add: handleLocalClick_def Let_def)
      then show ?thesis
        by (simp add: deselectPiece_def state_def)
    qed
  qed
qed

lemma addMoveToHistory_frame:
  "board (addMoveToHistory g f t r c) = board g \<and> heap (addMoveToHistory g f t r c) = heap g \<and>
   currentPlayer (addMoveToHistory g f t r c) = currentPlayer g \<and>
   pendingPromotion (addMoveToHistory g f t r c) = pendingPromotion g \<and>
   effects (addMoveToHistory g f t r c) = effects g"
  by (simp add: addMoveToHistory_def Let_def)

lemma selectPromotion_pending:
  assumes "pendingPromotion g = Some pp"
  shows "heap (selectPromotion g t) = (heap g)(ppiece pp := (heap g (ppiece pp))\<lparr>ptype := t\<rparr>) \<and>
         board (selectPromotion g t) = board g \<and>
         currentPlayer (selectPromotion g t) = other (currentPlayer g) \<and>
         pendingPromotion (selectPromotion g t) = None"
  using assms
  by (simp add: selectPromotion_def Let_def reportStatus_frame addMoveToHistory_frame)

text \<open>
  What the handler does implement of the promotion scenario. When the click is accepted
  as a move of the selected pawn to a different square of rank 0 or 7 that does not hold a
  king, \<^verbatim>\<open>handleLocalClick\<close> returns with the pawn relocated and still a pawn,
  \<^verbatim>\<open>pendingPromotion\<close> set, the side to move and the move history unchanged. In that state
  every single board click, whether it returns or throws, leaves the side to move, the
  pending promotion and every piece object as they are, and never leaves a piece of the
  other side selected. \<^verbatim>\<open>selectPromotion(t)\<close>, called in that state, overwrites the type of
  that very piece object, which is still on its square, clears the pending promotion and
  passes the turn.
\<close>

theorem promotion_pending_until_choice:
  assumes "selectedPiece g = Some src" and "board g src = Some r" and "ptype (heap g r) = Pawn"
    and "(x, y) \<in> set (validMoves g) \<union> set (validAttacks g)"
    and "0 \<le> x" and "x \<le> 7" and "y = 0 \<or> y = 7"
    and "\<forall>k. board g (x, y) = Some k \<longrightarrow> ptype (heap g k) \<noteq> King"
    and "(x, y) \<noteq> src"
  shows "\<exists>g'. handleLocalClick g x y = Returned g' \<and>
           currentPlayer g' = currentPlayer g \<and>
           pendingPromotion g' =
             Some \<lparr>px = x, py = y, ppiece = r, pfrom = src, pcaptured = board g (x, y)\<rparr> \<and>
           board g' = (board g)(src := None, (x, y) := Some r) \<and>
           heap g' = (heap g)(r := (heap g r)\<lparr>moved := True\<rparr>) \<and>
           moveHistory g' = moveHistory g \<and>
           (\<forall>cx cy.
              currentPlayer (state (handleLocalClick g' cx cy)) = currentPlayer g \<and>
              pendingPromotion (state (handleLocalClick g' cx cy)) = pendingPromotion g' \<and>
              heap (state (handleLocalClick g' cx cy)) = heap g' \<and>
              (\<forall>sq q. selectedPiece (state (handleLocalClick g' cx cy)) = Some sq \<and>
                      board (state (handleLocalClick g' cx cy)) sq = Some q \<longrightarrow>
                      color (heap g' q) = currentPlayer g)) \<and>
           (\<forall>t. heap (selectPromotion g' t) = (heap g')(r := (heap g' r)\<lparr>ptype := t\<rparr>) \<and>
                board (selectPromotion g' t) = board g' \<and>
                board (selectPromotion g' t) (x, y) = Some r \<and>
                currentPlayer (selectPromotion g' t) = other (currentPlayer g) \<and>
                pendingPromotion (selectPromotion g' t) = None)"
proof -
  define g' where "g' = g\<lparr>board := (board g)(src := None, (x, y) := Some r),
                       heap := (heap g)(r := (heap g r)\<lparr>moved := True\<rparr>),
                       lastMove := Some (src, (x, y)),
                       pendingPromotion := Some \<lparr>px = x, py = y, ppiece = r, pfrom = src,
                                                pcaptured = board g (x, y)\<rparr>,
                       effects := effects g @ [PromotionModalShown]\<rparr>"
  have ret: "handleLocalClick g x y = Returned g'"
    unfolding g'_def using assms(1-8) by (rule pending_entered)
  have sel: "selectedPiece g' = Some src" and emp: "board g' src = None"
    using assms(1,9) by (simp_all add: g'_def)
  have cp: "currentPlayer g' = currentPlayer g"
    by (simp add: g'_def)
  have pend: "pendingPromotion g' =
      Some \<lparr>px = x, py = y, ppiece = r, pfrom = src, pcaptured = board g (x, y)\<rparr>"
    by (simp add: g'_def)
  have clk: "currentPlayer (state (handleLocalClick g' cx cy)) = currentPlayer g \<and>
             pendingPromotion (state (handleLocalClick g' cx cy)) = pendingPromotion g' \<and>
             heap (state (handleLocalClick g' cx cy)) = heap g' \<and>
             (\<forall>sq q. selectedPiece (state (handleLocalClick g' cx cy)) = Some sq \<and>
                     board (state (handleLocalClick g' cx cy)) sq = Some q \<longrightarrow>
                     color (heap g' q) = currentPlayer g)" for cx cy
    using pending_click [OF sel emp, of cx cy] cp by auto
  have prom: "heap (selectPromotion g' t) = (heap g')(r := (heap g' r)\<lparr>ptype := t\<rparr>) \<and>
              board (selectPromotion g' t) = board g' \<and>
              board (selectPromotion g' t) (x, y) = Some r \<and>
              currentPlayer (selectPromotion g' t) = other (currentPlayer g) \<and>
              pendingPromotion (selectPromotion g' t) = None" for t
    using selectPromotion_pending [OF pend, of t] cp by (simp add: g'_def)
  have "board g' = (board g)(src := None, (x, y) := Some r)"
    "heap g' = (heap g)(r := (heap g r)\<lparr>moved := True\<rparr>)" "moveHistory g' = moveHistory g"
    by (simp_all add: g'_def)
  with ret cp pend clk prom show ?thesis by blast
qed

theorem promotion_pending_until_choice_witness:
  "selectedPiece promoSelected = Some (0, 1) \<and> board promoSelected (0, 1) = Some 0 \<and>
   ptype (heap promoSelected 0) = Pawn \<and>
   (0, 0) \<in> set (validMoves promoSelected) \<union> set (validAttacks promoSelected) \<and>
   board promoSelected (0, 0) = None \<and>
   (\<exists>g'. handleLocalClick promoSelected 0 0 = Returned g' \<and>
         currentPlayer g' = currentPlayer promoSelected \<and>
         board g' (0, 0) = Some 0 \<and>
         pendingPromotion g' =
           Some \<lparr>px = 0, py = 0, ppiece = 0, pfrom = (0, 1), pcaptured = None\<rparr> \<and>
         currentPlayer (selectPromotion g' Queen) = other (currentPlayer promoSelected) \<and>
         pendingPromotion (selectPromotion g' Queen) = None)"
proof -
  have h: "selectedPiece promoSelected = Some (0, 1)" "board promoSelected (0, 1) = Some 0"
    "ptype (heap promoSelected 0) = Pawn"
    "(0, 0) \<in> set (validMoves promoSelected) \<union> set (validAttacks promoSelected)"
    and e: "board promoSelected (0, 0) = None"
    by (simp_all add: promoSelected_def promoGame_def promoBoard_def promoHeap_def)
  have k: "\<forall>k. board promoSelected (0, 0) = Some k \<longrightarrow> ptype (heap promoSelected k) \<noteq> King"
    using e by simp
  from promotion_pending_until_choice [OF h _ _ _ k, of ] obtain g' where
    "handleLocalClick promoSelected 0 0 = Returned g'"
    "currentPlayer g' = currentPlayer promoSelected"
    "pendingPromotion g' =
       Some \<lparr>px = 0, py = 0, ppiece = 0, pfrom = (0, 1), pcaptured = board promoSelected (0, 0)\<rparr>"
    "board g' = (board promoSelected)((0, 1) := None, (0, 0) := Some 0)"
    "\<forall>t. currentPlayer (selectPromotion g' t) = other (currentPlayer promoSelected) \<and>
         pendingPromotion (selectPromotion g' t) = None"
    by auto
  with h e show ?thesis by auto
qed

text \<open>
  C5. A pawn move to rank 0 or 7 has to hold the game until the promotion piece is chosen:
  the side to move stays, no move of the opponent is accepted, and only the choice
  overwrites the pawn's type and passes the turn. The handler sets \<^verbatim>\<open>pendingPromotion\<close> and
  returns before the turn flips, but it keeps the selection and the two lists of the pawn,
  and no later click tests \<^verbatim>\<open>pendingPromotion\<close>. With White's pawn on a7 and the kings on
  e1 and h8: after a7-a8 the promotion is pending with White to move; the clicks of Ke1-e2
  are then accepted as a second move of White and pass the turn to Black; the clicks of
  Kh8-h7 are accepted as Black's move; all the while the promotion is pending and object 0
  is a pawn. A click on a8 right after a7-a8 is taken as a move of the stale selection a7:
  it empties a8 and throws.
\<close>

theorem promotion_pending_not_guarded:
  "pendingView (clicks promoGame [(0, 1), (0, 0)]) = (Some 0, White, Pawn, Some 0, Some 2, None) \<and>
   pendingView (clicks promoGame [(0, 1), (0, 0), (4, 7), (4, 6)]) =
     (Some 0, Black, Pawn, Some 0, Some 2, None) \<and>
   pendingView (clicks promoGame [(0, 1), (0, 0), (4, 7), (4, 6), (7, 0), (7, 1)]) =
     (Some 0, White, Pawn, Some 0, None, Some 2) \<and>
   isThrown (handleLocalClick (clicks promoGame [(0, 1), (0, 0)]) 0 0) \<and>
   pendingView (state (handleLocalClick (clicks promoGame [(0, 1), (0, 0)]) 0 0)) =
     (Some 0, White, Pawn, None, Some 2, None)"
  by code_simp

section \<open>Claims about the move log\<close>

lemma in_0_7: "0 \<le> (i::int) \<Longrightarrow> i \<le> 7 \<Longrightarrow> i = 0 \<or> i = 1 \<or> i = 2 \<or> i = 3 \<or> i = 4 \<or> i = 5 \<or> i = 6 \<or> i = 7"
  by arith

lemma fileStr_parse:
  assumes "0 \<le> x" "x \<le> 7"
  shows "\<exists>f. fileStr x = Some f \<and> fileOf f = Some x"
  using in_0_7 [OF assms] by (elim disjE) (simp_all add: fileStr_def fileOf_def)

lemma rankStr_parse:
  assumes "0 \<le> y" "y \<le> 7"
  shows "\<exists>c. showInt (8 - y) = [c] \<and> rankOf c = Some y"
  using in_0_7 [OF assms] by (elim disjE) (simp_all add: showInt_def showNat.simps rankOf_def)

lemma squareNotation_parse:
  assumes "0 \<le> fst sq" "fst sq \<le> 7" "0 \<le> snd sq" "snd sq \<le> 7"
  shows "\<exists>f c. squareNotation sq = [f, c] \<and> parseSquare f c = Some sq"
proof -
  from fileStr_parse [OF assms(1,2)] obtain f where f: "fileStr (fst sq) = Some f" "fileOf f = Some (fst sq)"
    by blast
  from rankStr_parse [OF assms(3,4)] obtain c where c: "showInt (8 - snd sq) = [c]" "rankOf c = Some (snd sq)"
    by blast
  from f c show ?thesis by (simp add: squareNotation_def parseSquare_def)
qed

lemma parse_moveNotation:
  assumes "0 \<le> fst a" "fst a \<le> 7" "0 \<le> snd a" "snd a \<le> 7"
    and "0 \<le> fst d" "fst d \<le> 7" "0 \<le> snd d" "snd d \<le> 7"
  shows "parseNotation (moveNotation t a cap d) = Some (pieceSymbol t, a, cap, d)"
proof -
  from squareNotation_parse [OF assms(1-4)] obtain f1 c1 where
    a: "squareNotation a = [f1, c1]" "parseSquare f1 c1 = Some a" by blast
  from squareNotation_parse [OF assms(5-8)] obtain f2 c2 where
    d: "squareNotation d = [f2, c2]" "parseSquare f2 c2 = Some d" by blast
  from a d show ?thesis
    by (simp add: moveNotation_def parseNotation_def)
qed


lemma moved_already: "moved p \<Longrightarrow> p\<lparr>moved := True\<rparr> = p"
  by (cases p) simp

lemma handleLocalClick_plain_move:
  assumes "selectedPiece g = Some src" and "board g src = Some r"
    and "(x, y) \<in> set (validMoves g) \<union> set (validAttacks g)"
    and "0 \<le> x" and "x \<le> 7"
    and "board g (x, y) = None"
    and "\<not> (ptype (heap g r) = Pawn \<and> (y = 0 \<or> y = 7))"
  shows "handleLocalClick g x y =
           Returned (reportStatus
             ((addMoveToHistory
                 (g\<lparr>board := (board g)(src := None, (x, y) := Some r),
                    heap := (heap g)(r := (heap g r)\<lparr>moved := True\<rparr>),
                    lastMove := Some (src, (x, y))\<rparr>) src (x, y) r None)
               \<lparr>selectedPiece := None, validMoves := [], validAttacks := [],
                currentPlayer := other (currentPlayer g)\<rparr>)
             (other (currentPlayer g)) (color (heap g r)))"
proof -
  have hc: "handleLocalClick g x y = commitMove g src x y"
    using assms(1,3,4,5) by (auto simp: handleLocalClick_def Let_def)
  show ?thesis
    unfolding hc using assms(2,6,7)
    by (auto simp: commitMove_def Let_def addMoveToHistory_frame)
qed

text \<open>
  C8, as the code has it. For an accepted local move onto an empty board square that is
  not a promotion, made by a piece whose \<^verbatim>\<open>moved\<close> flag was already set, and for which an
  entry is written (White's move, or Black's move with a non-empty log), the entry is the
  notation of the move, reads back as its symbol, from-square, capture flag and to-square,
  and inverting the move from it gives exactly the board before the move.
\<close>

theorem log_entry_inverts_plain_move:
  assumes "selectedPiece g = Some src" and "board g src = Some r"
    and "(x, y) \<in> set (validMoves g) \<union> set (validAttacks g)"
    and "0 \<le> x" and "x \<le> 7" and "0 \<le> y" and "y \<le> 7"
    and "0 \<le> fst src" and "fst src \<le> 7" and "0 \<le> snd src" and "snd src \<le> 7"
    and "board g (x, y) = None"
    and "moved (heap g r)"
    and "\<not> (ptype (heap g r) = Pawn \<and> (y = 0 \<or> y = 7))"
    and "color (heap g r) = White \<or> moveHistory g \<noteq> []"
  shows "\<exists>g' n. handleLocalClick g x y = Returned g' \<and>
           moveHistory g' \<noteq> [] \<and>
           n = (if color (heap g r) = White then white (last (moveHistory g'))
                else black (last (moveHistory g'))) \<and>
           n = moveNotation (ptype (heap g r)) src False (x, y) \<and>
           parseNotation n = Some (pieceSymbol (ptype (heap g r)), src, False, (x, y)) \<and>
           undoFromLog (boardView g') n = Some (boardView g)"
proof -
  let ?n = "moveNotation (ptype (heap g r)) src False (x, y)"
  have hp: "(heap g)(r := (heap g r)\<lparr>moved := True\<rparr>) = heap g"
    using assms(13) by (simp add: moved_already)
  define g2 where "g2 = g\<lparr>board := (board g)(src := None, (x, y) := Some r),
                    heap := (heap g)(r := (heap g r)\<lparr>moved := True\<rparr>),
                    lastMove := Some (src, (x, y))\<rparr>"
  define g3 where "g3 = addMoveToHistory g2 src (x, y) r None"
  define g' where "g' = reportStatus
      (g3\<lparr>selectedPiece := None, validMoves := [], validAttacks := [],
          currentPlayer := other (currentPlayer g)\<rparr>)
      (other (currentPlayer g)) (color (heap g r))"
  have ret: "handleLocalClick g x y = Returned g'"
    unfolding g'_def g3_def g2_def using assms(1,2,3,4,5,12,14) by (rule handleLocalClick_plain_move)
  have h2: "heap g2 = heap g" "moveHistory g2 = moveHistory g"
    by (simp_all add: g2_def hp)
  have hist: "moveHistory g' = moveHistory g3"
    by (simp add: g'_def reportStatus_frame)
  have ne: "moveHistory g3 \<noteq> []"
    using assms(15) by (auto simp: g3_def addMoveToHistory_def Let_def h2)
  have ent: "(if color (heap g r) = White then white (last (moveHistory g3))
              else black (last (moveHistory g3))) = ?n"
    using assms(15) by (auto simp: g3_def addMoveToHistory_def Let_def h2)
  have parse: "parseNotation ?n = Some (pieceSymbol (ptype (heap g r)), src, False, (x, y))"
    using assms(4-11) by (intro parse_moveNotation) simp_all
  have bv: "boardView g' = pieceAt (heap g) ((board g)(src := None, (x, y) := Some r))"
    by (simp add: boardView_def g'_def reportStatus_frame g3_def addMoveToHistory_frame g2_def hp)
  have "(pieceAt (heap g) ((board g)(src := None, (x, y) := Some r)))
          (src := pieceAt (heap g) ((board g)(src := None, (x, y) := Some r)) (x, y), (x, y) := None)
        = pieceAt (heap g) (board g)"
    using assms(2,12) by (auto simp: pieceAt_def fun_eq_iff)
  moreover have "boardView g = pieceAt (heap g) (board g)"
    by (simp add: boardView_def)
  ultimately have undo: "undoFromLog (boardView g') ?n = Some (boardView g)"
    by (simp add: undoFromLog_def parse bv)
  from ret hist ne ent parse undo show ?thesis by auto
qed

theorem log_entry_inverts_plain_move_witness:
  "selectedPiece (undoGame True) = Some (0, 7) \<and> board (undoGame True) (0, 7) = Some 0 \<and>
   (0, 5) \<in> set (validMoves (undoGame True)) \<union> set (validAttacks (undoGame True)) \<and>
   board (undoGame True) (0, 5) = None \<and> moved (heap (undoGame True) 0) \<and>
   ptype (heap (undoGame True) 0) = Rook \<and> color (heap (undoGame True) 0) = White \<and>
   (\<exists>g'. handleLocalClick (undoGame True) 0 5 = Returned g' \<and>
         white (last (moveHistory g')) = ''Ra1-a3'' \<and>
         undoFromLog (boardView g') ''Ra1-a3'' = Some (boardView (undoGame True)))"
proof -
  have h: "selectedPiece (undoGame True) = Some (0, 7)" "board (undoGame True) (0, 7) = Some 0"
    "(0, 5) \<in> set (validMoves (undoGame True)) \<union> set (validAttacks (undoGame True))"
    and b: "board (undoGame True) (0, 5) = None"
    and m: "moved (heap (undoGame True) 0)"
    and p: "ptype (heap (undoGame True) 0) = Rook"
    and c: "color (heap (undoGame True) 0) = White"
    by (simp_all add: undoGame_def undoBoard_def undoHeap_def startLocalGame_def)
  have n: "moveNotation Rook (0, 7) False (0, 5) = ''Ra1-a3''"
    by code_simp
  from log_entry_inverts_plain_move [of "undoGame True" "(0, 7)" 0 0 5, OF h _ _ _ _ _ _ _ _ b m]
    p c n
  obtain g' where "handleLocalClick (undoGame True) 0 5 = Returned g'"
    "white (last (moveHistory g')) = ''Ra1-a3''"
    "undoFromLog (boardView g') ''Ra1-a3'' = Some (boardView (undoGame True))"
    by auto
  with h b m p c show ?thesis by blast
qed

lemma undoHeap_moved: "(undoHeap m)(0 := (undoHeap m 0)\<lparr>moved := True\<rparr>) = undoHeap True"
  by (rule ext) (simp add: undoHeap_def)

text \<open>
  The claim as stated fails: the entry records neither the mover's earlier \<^verbatim>\<open>moved\<close> flag
  nor which piece was captured. Ra1-a3 played from two boards that differ in the rook's
  \<^verbatim>\<open>moved\<close> flag gives the same state, log entry included, so nothing can tell the two
  boards apart afterwards.
\<close>

theorem log_entry_forgets_moved_flag:
  "handleLocalClick (undoGame False) 0 5 = handleLocalClick (undoGame True) 0 5 \<and>
   boardView (undoGame False) (0, 7) = Some \<lparr>color = White, ptype = Rook, moved = False\<rparr> \<and>
   boardView (undoGame True) (0, 7) = Some \<lparr>color = White, ptype = Rook, moved = True\<rparr> \<and>
   map white (moveHistory (state (handleLocalClick (undoGame False) 0 5))) = [''Ra1-a3'']"
proof -
  have s: "selectedPiece (undoGame m) = Some (0, 7)" "board (undoGame m) (0, 7) = Some 0"
    "(0, 5) \<in> set (validMoves (undoGame m)) \<union> set (validAttacks (undoGame m))"
    "board (undoGame m) (0, 5) = None"
    "\<not> (ptype (heap (undoGame m) 0) = Pawn \<and> ((5::int) = 0 \<or> (5::int) = 7))" for m
    by (simp_all add: undoGame_def undoBoard_def undoHeap_def startLocalGame_def)
  have st: "handleLocalClick (undoGame m) 0 5 =
          Returned (reportStatus
             ((addMoveToHistory
                 ((undoGame m)\<lparr>board := (board (undoGame m))((0, 7) := None, (0, 5) := Some 0),
                    heap := (heap (undoGame m))(0 := (heap (undoGame m) 0)\<lparr>moved := True\<rparr>),
                    lastMove := Some ((0, 7), (0, 5))\<rparr>) (0, 7) (0, 5) 0 None)
               \<lparr>selectedPiece := None, validMoves := [], validAttacks := [],
                currentPlayer := other (currentPlayer (undoGame m))\<rparr>)
             (other (currentPlayer (undoGame m))) (color (heap (undoGame m) 0)))" for m
    using s(1,2,3) _ _ s(4,5) by (rule handleLocalClick_plain_move) simp_all
  have eq: "(undoGame m)\<lparr>board := (board (undoGame m))((0, 7) := None, (0, 5) := Some 0),
                    heap := (heap (undoGame m))(0 := (heap (undoGame m) 0)\<lparr>moved := True\<rparr>),
                    lastMove := Some ((0, 7), (0, 5))\<rparr>
          = (undoGame True)\<lparr>board := (board (undoGame True))((0, 7) := None, (0, 5) := Some 0),
                    lastMove := Some ((0, 7), (0, 5))\<rparr>" for m
    by (simp add: undoGame_def undoHeap_moved)
  have c: "currentPlayer (undoGame m) = White" "color (heap (undoGame m) 0) = White" for m
    by (simp_all add: undoGame_def undoHeap_def startLocalGame_def)
  have same: "handleLocalClick (undoGame False) 0 5 = handleLocalClick (undoGame True) 0 5"
    unfolding st eq c ..
  have v: "boardView (undoGame m) (0, 7) = Some \<lparr>color = White, ptype = Rook, moved = m\<rparr>" for m
    by (simp add: boardView_def pieceAt_def undoGame_def undoBoard_def undoHeap_def)
  have n: "moveNotation Rook (0, 7) False (0, 5) = ''Ra1-a3''"
    by code_simp
  have "map white (moveHistory (state (handleLocalClick (undoGame False) 0 5))) = [''Ra1-a3'']"
    unfolding st eq
    by (simp add: state_def reportStatus_frame addMoveToHistory_def Let_def undoGame_def
          undoHeap_def startLocalGame_def n)
  with same v show ?thesis by simp
qed

end
